theory Spec2Isabelle
  imports Main "HOL-Library.AList"
begin

section \<open>The JavaScript values and objects the sandboxes work on\<close>

text \<open>
  A property key is a string or a symbol (\<^verbatim>\<open>PropertyKey\<close>; a number used as a key
  reaches a Proxy trap as a string). A value is a primitive or a reference to an object
  or function, compared by identity.
\<close>

datatype pkey = Str string | Sym string

datatype val = Undefined | Null | Bool bool | Num int | Text string | Ref nat

text \<open>
  A property descriptor as \<^verbatim>\<open>Object.getOwnPropertyDescriptor\<close> reports it: a data
  descriptor (value, writable, enumerable, configurable) or an accessor descriptor
  (get, set, enumerable, configurable; an absent accessor function is \<open>Undefined\<close>).
\<close>

datatype desc =
    Data val bool bool bool
  | Accessor val val bool bool

fun configurable :: "desc \<Rightarrow> bool" where
  "configurable (Data v w e c) = c"
| "configurable (Accessor g s e c) = c"

fun enumerable :: "desc \<Rightarrow> bool" where
  "enumerable (Data v w e c) = e"
| "enumerable (Accessor g s e c) = e"

fun hasGetterKey :: "desc \<Rightarrow> bool" where
  \<comment> \<open>\<^verbatim>\<open>Object.prototype.hasOwnProperty.call(descriptor, 'get')\<close>: the descriptor object
      of an accessor property always has the key \<^verbatim>\<open>get\<close>, that of a data property never.\<close>
  "hasGetterKey (Data v w e c) = False"
| "hasGetterKey (Accessor g s e c) = True"

text \<open>
  The attributes object handed to \<^verbatim>\<open>Object.defineProperty\<close>: every field may be absent.
\<close>

record attrs =
  at_value :: "val option"
  at_writable :: "bool option"
  at_get :: "val option"
  at_set :: "val option"
  at_enumerable :: "bool option"
  at_configurable :: "bool option"

fun complete :: "desc \<Rightarrow> attrs" where
  "complete (Data v w e c) =
     \<lparr>at_value = Some v, at_writable = Some w, at_get = None, at_set = None,
      at_enumerable = Some e, at_configurable = Some c\<rparr>"
| "complete (Accessor g s e c) =
     \<lparr>at_value = None, at_writable = None, at_get = Some g, at_set = Some s,
      at_enumerable = Some e, at_configurable = Some c\<rparr>"


text \<open>
  An object: its own properties in creation order, and the properties it inherits
  through its prototype chain (the nearest definition of each key, nearest prototype
  first).
\<close>

record jsobj =
  own :: "(pkey \<times> desc) list"
  inherited :: "(pkey \<times> desc) list"

text \<open>
  How an operation ends. The sources are ES modules, hence strict-mode code: a failed
  assignment or delete throws a \<^verbatim>\<open>TypeError\<close>. An accessor function may throw anything
  (\<open>GetterError\<close>, \<open>SetterError\<close>).
\<close>

datatype error = TypeError | GetterError | SetterError

datatype 'a outcome = Returned 'a | Threw error

definition getOwnPropertyDescriptor :: "jsobj \<Rightarrow> pkey \<Rightarrow> desc option" where
  "getOwnPropertyDescriptor obj p = map_of (own obj) p"

definition hasOwnProperty :: "jsobj \<Rightarrow> pkey \<Rightarrow> bool" where
  "hasOwnProperty obj p = (getOwnPropertyDescriptor obj p \<noteq> None)"

definition getOwnPropertyNames :: "jsobj \<Rightarrow> string list" where
  \<comment> \<open>the string keys only, as \<^verbatim>\<open>Object.getOwnPropertyNames\<close> lists them\<close>
  "getOwnPropertyNames obj = remdups (List.map_filter (\<lambda>(k, d). case k of Str n \<Rightarrow> Some n | Sym n \<Rightarrow> None) (own obj))"

definition findProperty :: "jsobj \<Rightarrow> pkey \<Rightarrow> desc option" where
  \<comment> \<open>the property a lookup along the prototype chain finds\<close>
  "findProperty obj p =
     (case getOwnPropertyDescriptor obj p of Some d \<Rightarrow> Some d | None \<Rightarrow> map_of (inherited obj) p)"

definition js_in :: "pkey \<Rightarrow> jsobj \<Rightarrow> bool" where
  \<comment> \<open>\<^verbatim>\<open>p in obj\<close>\<close>
  "js_in p obj = (findProperty obj p \<noteq> None)"

definition isAccessorProperty :: "jsobj \<Rightarrow> pkey \<Rightarrow> bool" where
  \<comment> \<open>whether a lookup of \<open>p\<close> finds an accessor property, own or inherited\<close>
  "isAccessorProperty obj p =
     (case findProperty obj p of Some (Accessor g s e c) \<Rightarrow> True | _ \<Rightarrow> False)"

definition forInKeys :: "jsobj \<Rightarrow> string list" where
  \<comment> \<open>the keys a \<^verbatim>\<open>for (const key in obj)\<close> visits: the enumerable string keys, own ones
      first, an inherited one only if no own property has its name\<close>
  "forInKeys obj =
     filter (\<lambda>k. case getOwnPropertyDescriptor obj (Str k) of
                    None \<Rightarrow> False | Some d \<Rightarrow> enumerable d)
       (getOwnPropertyNames obj)
     @ filter (\<lambda>k. \<not> hasOwnProperty obj (Str k)
                  \<and> (case map_of (inherited obj) (Str k) of
                        None \<Rightarrow> False | Some d \<Rightarrow> enumerable d))
         (remdups (List.map_filter (\<lambda>(k, d). case k of Str n \<Rightarrow> Some n | Sym n \<Rightarrow> None)
                     (inherited obj)))"

text \<open>
  What an assignment \<^verbatim>\<open>obj[p] = v\<close> amounts to on an extensible ordinary object (the
  language's OrdinarySet): the own property gets a descriptor, or a setter found on the
  object or on its prototype chain is called, or the assignment is refused (a property
  that is not writable, an accessor without setter).
\<close>

datatype assignment = Store desc | Call val | Refuse

definition assignment :: "jsobj \<Rightarrow> pkey \<Rightarrow> val \<Rightarrow> assignment" where
  "assignment obj p v =
     (case getOwnPropertyDescriptor obj p of
        Some (Data v0 w e c) \<Rightarrow> (if w then Store (Data v w e c) else Refuse)
      | Some (Accessor g s e c) \<Rightarrow> (if s = Undefined then Refuse else Call s)
      | None \<Rightarrow>
          (case map_of (inherited obj) p of
             Some (Data v0 w e c) \<Rightarrow> (if w then Store (Data v True True True) else Refuse)
           | Some (Accessor g s e c) \<Rightarrow> (if s = Undefined then Refuse else Call s)
           | None \<Rightarrow> Store (Data v True True True)))"

definition js_delete :: "jsobj \<Rightarrow> pkey \<Rightarrow> jsobj outcome" where
  \<comment> \<open>\<^verbatim>\<open>delete obj[p]\<close> in strict mode\<close>
  "js_delete obj p =
     (case getOwnPropertyDescriptor obj p of
        None \<Rightarrow> Returned obj
      | Some d \<Rightarrow>
          (if configurable d then Returned (obj\<lparr>own := AList.delete p (own obj)\<rparr>)
           else Threw TypeError))"

text \<open>
  \<^verbatim>\<open>Object.defineProperty(obj, p, attributes)\<close> on an extensible ordinary object:
  the language's ValidateAndApplyPropertyDescriptor. \<open>isAccessorAttrs\<close> and
  \<open>isDataAttrs\<close> classify the attributes; attributes with both kinds of field are
  rejected when the attributes object is read.
\<close>

definition isAccessorAttrs :: "attrs \<Rightarrow> bool" where
  "isAccessorAttrs a = (at_get a \<noteq> None \<or> at_set a \<noteq> None)"

definition isDataAttrs :: "attrs \<Rightarrow> bool" where
  "isDataAttrs a = (at_value a \<noteq> None \<or> at_writable a \<noteq> None)"

definition orElse :: "'a option \<Rightarrow> 'a \<Rightarrow> 'a" where
  "orElse x d = (case x of None \<Rightarrow> d | Some y \<Rightarrow> y)"

definition newProperty :: "attrs \<Rightarrow> desc" where
  \<comment> \<open>a property created from attributes: absent fields take their defaults\<close>
  "newProperty a =
     (if isAccessorAttrs a
      then Accessor (orElse (at_get a) Undefined) (orElse (at_set a) Undefined)
             (orElse (at_enumerable a) False) (orElse (at_configurable a) False)
      else Data (orElse (at_value a) Undefined) (orElse (at_writable a) False)
             (orElse (at_enumerable a) False) (orElse (at_configurable a) False))"

fun rejected :: "desc \<Rightarrow> attrs \<Rightarrow> bool" where
  \<comment> \<open>the changes a non-configurable property refuses\<close>
  "rejected (Data v w e c) a =
     (\<not> c \<and>
      (at_configurable a = Some True
       \<or> (at_enumerable a \<noteq> None \<and> at_enumerable a \<noteq> Some e)
       \<or> isAccessorAttrs a
       \<or> (\<not> w \<and> (at_writable a = Some True
                  \<or> (at_value a \<noteq> None \<and> at_value a \<noteq> Some v)))))"
| "rejected (Accessor g s e c) a =
     (\<not> c \<and>
      (at_configurable a = Some True
       \<or> (at_enumerable a \<noteq> None \<and> at_enumerable a \<noteq> Some e)
       \<or> isDataAttrs a
       \<or> (at_get a \<noteq> None \<and> at_get a \<noteq> Some g)
       \<or> (at_set a \<noteq> None \<and> at_set a \<noteq> Some s)))"

fun applied :: "desc \<Rightarrow> attrs \<Rightarrow> desc" where
  \<comment> \<open>the property after an accepted change: fields present in the attributes are
      taken, the others kept (or set to their defaults when the kind changes)\<close>
  "applied (Data v w e c) a =
     (if isAccessorAttrs a
      then Accessor (orElse (at_get a) Undefined) (orElse (at_set a) Undefined)
             (orElse (at_enumerable a) e) (orElse (at_configurable a) c)
      else Data (orElse (at_value a) v) (orElse (at_writable a) w)
             (orElse (at_enumerable a) e) (orElse (at_configurable a) c))"
| "applied (Accessor g s e c) a =
     (if isDataAttrs a
      then Data (orElse (at_value a) Undefined) (orElse (at_writable a) False)
             (orElse (at_enumerable a) e) (orElse (at_configurable a) c)
      else Accessor (orElse (at_get a) g) (orElse (at_set a) s)
             (orElse (at_enumerable a) e) (orElse (at_configurable a) c))"

definition defineProperty :: "jsobj \<Rightarrow> pkey \<Rightarrow> attrs \<Rightarrow> jsobj outcome" where
  "defineProperty obj p a =
     (if isAccessorAttrs a \<and> isDataAttrs a then Threw TypeError
      else case getOwnPropertyDescriptor obj p of
        None \<Rightarrow> Returned (obj\<lparr>own := AList.update p (newProperty a) (own obj)\<rparr>)
      | Some d \<Rightarrow>
          (if rejected d a then Threw TypeError
           else Returned (obj\<lparr>own := AList.update p (applied d a) (own obj)\<rparr>)))"


section \<open>The module environment\<close>

text \<open>
  What the modules read from outside themselves: the build flags, the imported list
  \<^verbatim>\<open>globals\<close>, a few native objects, and the helpers imported from \<^verbatim>\<open>../utils\<close>,
  whose source is not part of the sources at hand. They are parameters of the model:
  every general theorem below holds for all of them.

  Accessor functions (those of the host global object's properties, or of a function's)
  are foreign code too. \<open>getterCall\<close> and \<open>setterCall\<close> give what calling one does:
  a getter reads the host global object and returns or throws; a setter is handed the
  assigned value and the host global object, and returns or throws, leaving the host
  global object as it made it. The receiver says on which object the accessor was
  called: the host global object itself, or another object (a fake window, a function).
\<close>

datatype node_env = Test | Development | Production

datatype receiver = OnHost | OnOther

record env =
  nodeEnv :: node_env
    \<comment> \<open>\<^verbatim>\<open>process.env.NODE_ENV\<close>; \<open>Production\<close> stands for every other value\<close>
  qiankunDevelopment :: bool
    \<comment> \<open>whether \<^verbatim>\<open>window.__QIANKUN_DEVELOPMENT__\<close> is truthy when the module loads\<close>
  globals :: "string list"
  nativeGlobal :: val
  globalDocument :: val
  evalFn :: val
  unscopablesRef :: val
    \<comment> \<open>the identity of the module's \<^verbatim>\<open>unscopables\<close> object\<close>
  objectPrototype :: "(pkey \<times> desc) list"
    \<comment> \<open>what a plain object \<^verbatim>\<open>{}\<close> inherits\<close>
  functionPrototype :: jsobj
    \<comment> \<open>\<^verbatim>\<open>Function.prototype\<close>\<close>
  isCallable :: "val \<Rightarrow> bool"
  isBoundedFunction :: "val \<Rightarrow> bool"
  isConstructable :: "val \<Rightarrow> bool"
  isPropertyFrozen :: "jsobj \<Rightarrow> pkey \<Rightarrow> bool"
  typeofFunction :: "val \<Rightarrow> bool"
    \<comment> \<open>\<^verbatim>\<open>typeof v === 'function'\<close>\<close>
  boundLength :: "val \<Rightarrow> val"
  boundName :: "val \<Rightarrow> val"
    \<comment> \<open>the \<^verbatim>\<open>length\<close> and \<^verbatim>\<open>name\<close> that \<^verbatim>\<open>Function.prototype.bind\<close> gives the bound
        function it makes of a function\<close>
  getterCall :: "val \<Rightarrow> receiver \<Rightarrow> jsobj \<Rightarrow> error + val"
    \<comment> \<open>getters are taken not to write the state modelled here\<close>
  setterCall :: "val \<Rightarrow> receiver \<Rightarrow> val \<Rightarrow> jsobj \<Rightarrow> unit outcome \<times> jsobj"

definition js_get :: "env \<Rightarrow> receiver \<Rightarrow> jsobj \<Rightarrow> jsobj \<Rightarrow> pkey \<Rightarrow> val outcome" where
  \<comment> \<open>\<^verbatim>\<open>obj[p]\<close>, read while the host global object is \<open>globalContext\<close>\<close>
  "js_get E r globalContext obj p =
     (case findProperty obj p of
        None \<Rightarrow> Returned Undefined
      | Some (Data v w e c) \<Rightarrow> Returned v
      | Some (Accessor g s e c) \<Rightarrow>
          (if g = Undefined then Returned Undefined
           else case getterCall E g r globalContext of
                  Inl err \<Rightarrow> Threw err | Inr v \<Rightarrow> Returned v))"

definition js_set :: "env \<Rightarrow> jsobj \<Rightarrow> pkey \<Rightarrow> val \<Rightarrow> unit outcome \<times> jsobj" where
  \<comment> \<open>\<^verbatim>\<open>globalContext[p] = v\<close>: an assignment on the host global object itself\<close>
  "js_set E globalContext p v =
     (case assignment globalContext p v of
        Store d \<Rightarrow> (Returned (), globalContext\<lparr>own := AList.update p d (own globalContext)\<rparr>)
      | Call s \<Rightarrow> setterCall E s OnHost v globalContext
      | Refuse \<Rightarrow> (Threw TypeError, globalContext))"

definition js_set_on ::
    "env \<Rightarrow> jsobj \<Rightarrow> pkey \<Rightarrow> val \<Rightarrow> jsobj \<Rightarrow> unit outcome \<times> jsobj \<times> jsobj" where
  \<comment> \<open>\<^verbatim>\<open>obj[p] = v\<close> on an object other than the host global object \<open>globalContext\<close>;
      the result holds the object, then the host global object\<close>
  "js_set_on E obj p v globalContext =
     (case assignment obj p v of
        Store d \<Rightarrow> (Returned (), obj\<lparr>own := AList.update p d (own obj)\<rparr>, globalContext)
      | Call s \<Rightarrow>
          (case setterCall E s OnOther v globalContext of (r, g) \<Rightarrow> (r, obj, g))
      | Refuse \<Rightarrow> (Threw TypeError, obj, globalContext))"

definition inTest :: "env \<Rightarrow> bool" where
  "inTest E = (nodeEnv E = Test)"

definition variableWhiteListInDev :: "env \<Rightarrow> string list" where
  "variableWhiteListInDev E =
     (if nodeEnv E = Test \<or> nodeEnv E = Development \<or> qiankunDevelopment E
      then [''__REACT_ERROR_OVERLAY_GLOBAL_HOOK__'', ''event'']
      else [])"

definition globalVariableWhiteList :: "env \<Rightarrow> string list" where
  "globalVariableWhiteList E = [''System'', ''__cjsWrapper''] @ variableWhiteListInDev E"

definition mockSafariTop :: string where "mockSafariTop = ''mockSafariTop''"
definition mockTop :: string where "mockTop = ''mockTop''"
definition mockGlobalThis :: string where "mockGlobalThis = ''mockGlobalThis''"

definition accessingSpiedGlobals :: "string list" where
  "accessingSpiedGlobals = [''document'', ''top'', ''parent'', ''eval'']"

definition overwrittenGlobals :: "env \<Rightarrow> string list" where
  "overwrittenGlobals E =
     [''window'', ''self'', ''globalThis'', ''hasOwnProperty'']
     @ (if inTest E then [mockGlobalThis] else [])"

fun uniq :: "'a list \<Rightarrow> 'a list" where
  \<comment> \<open>keeps the first occurrence of each element\<close>
  "uniq [] = []"
| "uniq (x # xs) = x # filter (\<lambda>y. y \<noteq> x) (uniq xs)"

definition without :: "'a list \<Rightarrow> 'a list \<Rightarrow> 'a list" where
  "without xs ys = filter (\<lambda>x. x \<notin> set ys) xs"

definition cachedGlobals :: "env \<Rightarrow> string list" where
  "cachedGlobals E =
     uniq (without (globals E @ overwrittenGlobals E @ [''requestAnimationFrame''])
             accessingSpiedGlobals)"

definition inCachedGlobalObjects :: "env \<Rightarrow> pkey \<Rightarrow> bool" where
  \<comment> \<open>\<^verbatim>\<open>p in cachedGlobalObjects\<close>: the object is built by spreading into \<^verbatim>\<open>{}\<close>, so it
      inherits from \<^verbatim>\<open>Object.prototype\<close>\<close>
  "inCachedGlobalObjects E p =
     ((case p of Str k \<Rightarrow> k \<in> set (cachedGlobals E) | Sym k \<Rightarrow> False)
      \<or> map_of (objectPrototype E) p \<noteq> None)"

definition useNativeWindowForBindingsProps :: "env \<Rightarrow> pkey \<Rightarrow> bool" where
  \<comment> \<open>whether \<^verbatim>\<open>useNativeWindowForBindingsProps.get(p)\<close> is truthy\<close>
  "useNativeWindowForBindingsProps E p =
     (if p = Str ''fetch'' then True
      else if p = Str ''mockDomAPIInBlackList'' then inTest E
      else False)"

fun truthy :: "val \<Rightarrow> bool" where
  "truthy Undefined = False"
| "truthy Null = False"
| "truthy (Bool b) = b"
| "truthy (Num n) = (n \<noteq> 0)"
| "truthy (Text s) = (s \<noteq> [])"
| "truthy (Ref r) = True"


section \<open>Process-wide state\<close>

text \<open>
  The host global object with its identity, the counter \<^verbatim>\<open>activeSandboxCount\<close> of
  proxySandbox.ts, the slot \<^verbatim>\<open>currentRunningApp\<close> and the cache
  \<^verbatim>\<open>functionBoundedValueMap\<close> of common.ts. \<open>functionObjects\<close> gives the properties
  of each function (a function is an object), \<open>boundFunctions\<close> holds the wrappers
  that \<^verbatim>\<open>Function.prototype.bind\<close> has made (wrapper \<open>\<mapsto>\<close> original and receiver), and
  \<open>nextRef\<close> is the identity the next new object gets.
\<close>

record world =
  host :: jsobj
  hostRef :: nat
  activeSandboxCount :: int
  currentRunningApp :: "(string \<times> val) option"
  clearScheduled :: bool
  functionBoundedValueMap :: "val \<Rightarrow> val option"
  functionObjects :: "val \<Rightarrow> jsobj"
  boundFunctions :: "nat \<Rightarrow> (val \<times> val) option"
  nextRef :: nat

subsection \<open>common.ts: the running-app registry\<close>

definition getCurrentRunningApp :: "world \<Rightarrow> (string \<times> val) option" where
  "getCurrentRunningApp W = currentRunningApp W"

definition setCurrentRunningApp :: "string \<times> val \<Rightarrow> world \<Rightarrow> world" where
  "setCurrentRunningApp appInstance W = W\<lparr>currentRunningApp := Some appInstance\<rparr>"

definition clearCurrentRunningApp :: "world \<Rightarrow> world" where
  "clearCurrentRunningApp W = W\<lparr>currentRunningApp := None\<rparr>"

text \<open>
  Modelled from the spec: \<^verbatim>\<open>nextTask\<close> of \<^verbatim>\<open>../utils\<close> is not among the sources. The
  spec has the trap "schedule the registry to clear on the next microtask boundary";
  the model records that a clearing is scheduled, and \<open>runScheduledTask\<close> is that
  microtask.
\<close>

definition nextTask :: "world \<Rightarrow> world" where
  "nextTask W = W\<lparr>clearScheduled := True\<rparr>"

definition runScheduledTask :: "world \<Rightarrow> world" where
  "runScheduledTask W =
     (if clearScheduled W then (clearCurrentRunningApp W)\<lparr>clearScheduled := False\<rparr> else W)"


subsection \<open>Loops over keys\<close>

text \<open>
  A \<^verbatim>\<open>forEach\<close> (or \<^verbatim>\<open>for\<close> loop) whose body works on a state: the body's effect is
  applied key by key, in order; an exception ends the loop with the state as it is then.
\<close>

definition step :: "jsobj \<Rightarrow> jsobj outcome \<Rightarrow> unit outcome \<times> jsobj" where
  \<comment> \<open>a single object operation, which leaves the object as it was unless it returns\<close>
  "step obj r =
     (case r of Returned obj' \<Rightarrow> (Returned (), obj')
      | Threw err \<Rightarrow> (Threw err, obj))"

fun forEach :: "('a \<Rightarrow> 's \<Rightarrow> unit outcome \<times> 's) \<Rightarrow> 'a list \<Rightarrow> 's \<Rightarrow> unit outcome \<times> 's" where
  "forEach f [] st = (Returned (), st)"
| "forEach f (x # xs) st =
     (case f x st of
        (Returned u, st') \<Rightarrow> forEach f xs st'
      | (Threw err, st') \<Rightarrow> (Threw err, st'))"

subsection \<open>common.ts: getTargetValue\<close>

text \<open>
  \<^verbatim>\<open>Function.prototype.bind.call(value, target)\<close> makes a new function object with the
  own properties \<^verbatim>\<open>length\<close> and \<^verbatim>\<open>name\<close>, neither writable nor enumerable, and the
  prototype of \<^verbatim>\<open>value\<close>.
\<close>

definition bind :: "env \<Rightarrow> val \<Rightarrow> jsobj \<Rightarrow> jsobj" where
  "bind E v valueObj =
     \<lparr>own = [(Str ''length'', Data (boundLength E v) False False True),
             (Str ''name'', Data (boundName E v) False False True)],
      inherited = inherited valueObj\<rparr>"

definition copyField :: "env \<Rightarrow> jsobj \<Rightarrow> string \<Rightarrow> jsobj \<times> jsobj \<Rightarrow> unit outcome \<times> jsobj \<times> jsobj" where
  \<comment> \<open>the body \<^verbatim>\<open>boundValue[key] = value[key]\<close> of the \<^verbatim>\<open>for\<close> loop; the state is the
      bound function's object and the host global object\<close>
  "copyField E valueObj key st =
     (case st of (boundObj, globalContext) \<Rightarrow>
        (case js_get E OnOther globalContext valueObj (Str key) of
           Returned x \<Rightarrow> js_set_on E boundObj (Str key) x globalContext
         | Threw err \<Rightarrow> (Threw err, boundObj, globalContext)))"

definition copyPrototype :: "env \<Rightarrow> jsobj \<Rightarrow> jsobj \<Rightarrow> jsobj \<Rightarrow> jsobj outcome" where
  \<comment> \<open>\<^verbatim>\<open>if (value.hasOwnProperty('prototype') && !boundValue.hasOwnProperty('prototype'))
      Object.defineProperty(boundValue, 'prototype', {value: value.prototype, enumerable: false, writable: true})\<close>\<close>
  "copyPrototype E globalContext valueObj boundObj =
     (if hasOwnProperty valueObj (Str ''prototype'') \<and> \<not> hasOwnProperty boundObj (Str ''prototype'')
      then
        (case js_get E OnOther globalContext valueObj (Str ''prototype'') of
           Returned proto \<Rightarrow>
             defineProperty boundObj (Str ''prototype'')
               \<lparr>at_value = Some proto, at_writable = Some True, at_get = None, at_set = None,
                at_enumerable = Some False, at_configurable = None\<rparr>
         | Threw err \<Rightarrow> Threw err)
      else Returned boundObj)"

definition toStringAttributes :: "desc option \<Rightarrow> val \<Rightarrow> attrs" where
  \<comment> \<open>\<^verbatim>\<open>{...originToStringDescriptor, ...(originToStringDescriptor?.get ? null : {value: closure})}\<close>\<close>
  "toStringAttributes originToStringDescriptor closure =
     (case originToStringDescriptor of
        None \<Rightarrow>
          \<lparr>at_value = Some closure, at_writable = None, at_get = None, at_set = None,
           at_enumerable = None, at_configurable = None\<rparr>
      | Some (Data v w e c) \<Rightarrow> complete (Data closure w e c)
      | Some (Accessor g s e c) \<Rightarrow>
          (if truthy g then complete (Accessor g s e c)
           else (complete (Accessor g s e c))\<lparr>at_value := Some closure\<rparr>))"

definition patchToString :: "env \<Rightarrow> jsobj \<Rightarrow> jsobj \<Rightarrow> jsobj \<Rightarrow> val \<Rightarrow> jsobj outcome" where
  \<comment> \<open>the statement \<^verbatim>\<open>if (typeof value.toString === 'function') {...}\<close>; \<open>closure\<close> is
      the identity of the arrow function \<^verbatim>\<open>() => value.toString()\<close>\<close>
  "patchToString E globalContext valueObj boundObj closure =
     (case js_get E OnOther globalContext valueObj (Str ''toString'') of
        Threw err \<Rightarrow> Threw err
      | Returned valueToString \<Rightarrow>
          if typeofFunction E valueToString then
            (let valueHasInstanceToString =
                   (hasOwnProperty valueObj (Str ''toString'')
                    \<and> \<not> hasOwnProperty boundObj (Str ''toString'')) in
             case js_get E OnOther globalContext boundObj (Str ''toString'') of
               Threw err \<Rightarrow> Threw err
             | Returned boundToString \<Rightarrow>
                 (case js_get E OnOther globalContext (functionPrototype E) (Str ''toString'') of
                    Threw err \<Rightarrow> Threw err
                  | Returned prototypeToString \<Rightarrow>
                      if valueHasInstanceToString \<or> boundToString = prototypeToString then
                        defineProperty boundObj (Str ''toString'')
                          (toStringAttributes
                             (getOwnPropertyDescriptor
                                (if valueHasInstanceToString then valueObj else functionPrototype E)
                                (Str ''toString''))
                             closure)
                      else Returned boundObj))
          else Returned boundObj)"

text \<open>
  A cache miss takes two new identities: one for the bound function, one for the arrow
  function that may become its \<^verbatim>\<open>toString\<close>. When the decoration of the bound function
  throws, nothing that was made is reachable any more, and the cache is not written.
  \<^verbatim>\<open>x.hasOwnProperty(p)\<close> is taken to reach \<^verbatim>\<open>Object.prototype.hasOwnProperty\<close>.
\<close>

definition getTargetValue :: "env \<Rightarrow> val \<Rightarrow> val \<Rightarrow> world \<Rightarrow> val outcome \<times> world" where
  "getTargetValue E target v W =
     (if isCallable E v \<and> \<not> isBoundedFunction E v \<and> \<not> isConstructable E v then
        (let cachedBoundFunction = orElse (functionBoundedValueMap W v) Undefined in
         if truthy cachedBoundFunction then (Returned cachedBoundFunction, W)
         else
           (let boundValue = Ref (nextRef W);
                valueObj = functionObjects W v in
            case forEach (copyField E valueObj) (forInKeys valueObj)
                   (bind E v valueObj, host W) of
              (Threw err, boundObj, g) \<Rightarrow> (Threw err, W\<lparr>host := g\<rparr>)
            | (Returned u, boundObj, g) \<Rightarrow>
                (case copyPrototype E g valueObj boundObj of
                   Threw err \<Rightarrow> (Threw err, W\<lparr>host := g\<rparr>)
                 | Returned boundObj1 \<Rightarrow>
                     (case patchToString E g valueObj boundObj1 (Ref (Suc (nextRef W))) of
                        Threw err \<Rightarrow> (Threw err, W\<lparr>host := g\<rparr>)
                      | Returned boundObj2 \<Rightarrow>
                          (Returned boundValue,
                           W\<lparr>host := g,
                             functionObjects := (functionObjects W)(boundValue := boundObj2),
                             boundFunctions := (boundFunctions W)(nextRef W \<mapsto> (v, target)),
                             functionBoundedValueMap :=
                               (functionBoundedValueMap W)(v \<mapsto> boundValue),
                             nextRef := Suc (Suc (nextRef W))\<rparr>)))))
      else (Returned v, W))"

section \<open>proxySandbox.ts: the multiplexed sandbox\<close>

text \<open>
  The fields both sandbox classes have (interface \<^verbatim>\<open>SandBox\<close>), then those of
  \<^verbatim>\<open>ProxySandbox\<close>. \<open>fakeWindow\<close> is the Proxy's target; \<open>propertiesWithGetter\<close>
  and \<open>descriptorTargetMap\<close> are the constructor's local maps, which the traps close
  over; \<open>hasOwnPropertyFn\<close> is the identity of the constructor's local function
  \<^verbatim>\<open>hasOwnProperty\<close>. The host global object \<^verbatim>\<open>globalContext\<close> is \<open>host\<close> of the world.
\<close>

record sandbox =
  name :: string
  proxy :: val
  sandboxRunning :: bool
  latestSetProp :: "pkey option"

datatype symbolTarget = FromTarget | FromGlobalContext

record proxySandbox = sandbox +
  fakeWindow :: jsobj
  propertiesWithGetter :: "pkey list"
  descriptorTargetMap :: "pkey \<Rightarrow> symbolTarget option"
  updatedValueSet :: "pkey set"
  document :: val
  globalWhitelistPrevDescriptor :: "(pkey \<times> desc option) list"
  hasOwnPropertyFn :: val

subsection \<open>createFakeWindow\<close>

definition isSelfReference :: "env \<Rightarrow> bool \<Rightarrow> string \<Rightarrow> bool" where
  \<comment> \<open>the names whose copied descriptor is made configurable (and writable)\<close>
  "isSelfReference E speedy p =
     (p = ''top'' \<or> p = ''parent'' \<or> p = ''self'' \<or> p = ''window''
      \<or> (p = ''document'' \<and> speedy)
      \<or> (inTest E \<and> (p = mockTop \<or> p = mockSafariTop)))"

fun fakeDescriptor :: "env \<Rightarrow> bool \<Rightarrow> string \<Rightarrow> desc \<Rightarrow> desc" where
  \<comment> \<open>the descriptor defined on the fake window for the host's descriptor of \<open>p\<close>\<close>
  "fakeDescriptor E speedy p (Data v w e c) =
     (if isSelfReference E speedy p then Data v True e True else Data v w e c)"
| "fakeDescriptor E speedy p (Accessor g s e c) =
     (if isSelfReference E speedy p then Accessor g s e True else Accessor g s e c)"

definition nonConfigurableNames :: "jsobj \<Rightarrow> string list" where
  \<comment> \<open>\<^verbatim>\<open>Object.getOwnPropertyNames(globalContext).filter(...)\<close>\<close>
  "nonConfigurableNames globalContext =
     filter (\<lambda>p. case getOwnPropertyDescriptor globalContext (Str p) of
                   None \<Rightarrow> True
                 | Some descriptor \<Rightarrow> \<not> configurable descriptor)
       (getOwnPropertyNames globalContext)"

text \<open>
  The \<^verbatim>\<open>forEach\<close> defines each such property on the new object \<^verbatim>\<open>{}\<close>, where it does not
  exist yet, so every \<^verbatim>\<open>rawObjectDefineProperty\<close> creates the property with the complete
  descriptor it is given.
\<close>

definition createFakeWindow :: "env \<Rightarrow> jsobj \<Rightarrow> bool \<Rightarrow> jsobj \<times> pkey list" where
  "createFakeWindow E globalContext speedy =
     (\<lparr>own = List.map_filter
              (\<lambda>p. map_option (\<lambda>descriptor. (Str p, fakeDescriptor E speedy p descriptor))
                     (getOwnPropertyDescriptor globalContext (Str p)))
              (nonConfigurableNames globalContext),
       inherited = objectPrototype E\<rparr>,
      List.map_filter
        (\<lambda>p. case getOwnPropertyDescriptor globalContext (Str p) of
               None \<Rightarrow> None
             | Some descriptor \<Rightarrow> if hasGetterKey descriptor then Some (Str p) else None)
        (nonConfigurableNames globalContext))"

subsection \<open>The constructor, active and inactive\<close>

text \<open>
  The constructor takes the identities of the two objects it creates (the Proxy and the
  local function \<^verbatim>\<open>hasOwnProperty\<close>) as arguments.
\<close>

definition ProxySandbox :: "env \<Rightarrow> string \<Rightarrow> bool \<Rightarrow> val \<Rightarrow> val \<Rightarrow> world \<Rightarrow> proxySandbox \<times> world" where
  "ProxySandbox E nm speedy proxyRef hasOwnRef W =
     (let (fw, getters) = createFakeWindow E (host W) speedy in
      (\<lparr>name = nm, proxy = proxyRef, sandboxRunning = True, latestSetProp = None,
        fakeWindow = fw, propertiesWithGetter = getters,
        descriptorTargetMap = Map.empty, updatedValueSet = {},
        document = globalDocument E, globalWhitelistPrevDescriptor = [],
        hasOwnPropertyFn = hasOwnRef\<rparr>,
       W\<lparr>activeSandboxCount := activeSandboxCount W + 1\<rparr>))"

definition proxy_active :: "proxySandbox \<Rightarrow> world \<Rightarrow> proxySandbox \<times> world" where
  "proxy_active S W =
     (S\<lparr>sandboxRunning := True\<rparr>,
      if \<not> sandboxRunning S then W\<lparr>activeSandboxCount := activeSandboxCount W + 1\<rparr> else W)"

definition recordedDescriptor :: "(pkey \<times> desc option) list \<Rightarrow> pkey \<Rightarrow> desc option" where
  \<comment> \<open>\<^verbatim>\<open>this.globalWhitelistPrevDescriptor[p]\<close>: \<open>None\<close> is \<^verbatim>\<open>undefined\<close>, be it recorded
      or for want of the key\<close>
  "recordedDescriptor prev p = (case map_of prev p of Some (Some d) \<Rightarrow> Some d | _ \<Rightarrow> None)"

definition restoreProp :: "(pkey \<times> desc option) list \<Rightarrow> pkey \<Rightarrow> jsobj \<Rightarrow> unit outcome \<times> jsobj" where
  \<comment> \<open>the callback of the \<^verbatim>\<open>forEach\<close> in \<^verbatim>\<open>inactive\<close>\<close>
  "restoreProp prev p globalContext =
     (case recordedDescriptor prev p of
        Some descriptor \<Rightarrow>
          step globalContext (defineProperty globalContext p (complete descriptor))
      | None \<Rightarrow> step globalContext (js_delete globalContext p))"

definition proxy_inactive :: "env \<Rightarrow> proxySandbox \<Rightarrow> world \<Rightarrow> unit outcome \<times> proxySandbox \<times> world" where
  "proxy_inactive E S W =
     (let W1 = (if inTest E then W else W\<lparr>activeSandboxCount := activeSandboxCount W - 1\<rparr>) in
      if inTest E \<or> activeSandboxCount W1 = 0 then
        (case forEach (restoreProp (globalWhitelistPrevDescriptor S))
                (map fst (globalWhitelistPrevDescriptor S)) (host W1) of
           (Returned u, g) \<Rightarrow> (Returned (), S\<lparr>sandboxRunning := False\<rparr>, W1\<lparr>host := g\<rparr>)
         | (Threw err, g) \<Rightarrow> (Threw err, S, W1\<lparr>host := g\<rparr>))
      else (Returned (), S\<lparr>sandboxRunning := False\<rparr>, W1))"

definition patchDocument :: "val \<Rightarrow> proxySandbox \<Rightarrow> proxySandbox" where
  "patchDocument doc S = S\<lparr>document := doc\<rparr>"

definition registerRunningApp :: "proxySandbox \<Rightarrow> world \<Rightarrow> world" where
  "registerRunningApp S W =
     (if sandboxRunning S then
        nextTask
          (case getCurrentRunningApp W of
             None \<Rightarrow> setCurrentRunningApp (name S, proxy S) W
           | Some app \<Rightarrow>
               if fst app \<noteq> name S then setCurrentRunningApp (name S, proxy S) W else W)
      else W)"


subsection \<open>The traps of the Proxy\<close>

text \<open>
  Each trap is the handler function of the source: it takes the sandbox and the world
  and returns how it ended, with both as they are then (also when it throws: what it had
  written before stays written). \<^verbatim>\<open>target\<close> is \<open>fakeWindow\<close>.
  \<^verbatim>\<open>x.hasOwnProperty(p)\<close> is taken to reach \<^verbatim>\<open>Object.prototype.hasOwnProperty\<close>.
  The traps \<^verbatim>\<open>defineProperty\<close>, \<^verbatim>\<open>ownKeys\<close> and \<^verbatim>\<open>getPrototypeOf\<close> are not needed below.
\<close>

definition inWhiteList :: "env \<Rightarrow> pkey \<Rightarrow> bool" where
  \<comment> \<open>\<^verbatim>\<open>typeof p === 'string' && globalVariableWhiteList.indexOf(p) !== -1\<close>\<close>
  "inWhiteList E p = (case p of Str k \<Rightarrow> k \<in> set (globalVariableWhiteList E) | Sym k \<Rightarrow> False)"

fun writableOrSet :: "desc \<Rightarrow> bool" where
  \<comment> \<open>\<^verbatim>\<open>writable || set\<close> of the destructured descriptor\<close>
  "writableOrSet (Data v w e c) = w"
| "writableOrSet (Accessor g s e c) = truthy s"

definition recorded :: "pkey \<Rightarrow> proxySandbox \<Rightarrow> proxySandbox" where
  \<comment> \<open>\<^verbatim>\<open>updatedValueSet.add(p); this.latestSetProp = p\<close>\<close>
  "recorded p S = S\<lparr>updatedValueSet := insert p (updatedValueSet S), latestSetProp := Some p\<rparr>"

definition proxy_set :: "env \<Rightarrow> proxySandbox \<Rightarrow> pkey \<Rightarrow> val \<Rightarrow> world \<Rightarrow> bool outcome \<times> proxySandbox \<times> world" where
  "proxy_set E S p v W =
     (if sandboxRunning S then
        (let W1 = registerRunningApp S W in
         if inWhiteList E p then
           (let S1 = S\<lparr>globalWhitelistPrevDescriptor :=
                         AList.update p (getOwnPropertyDescriptor (host W1) p)
                           (globalWhitelistPrevDescriptor S)\<rparr> in
            case js_set E (host W1) p v of
              (Returned u, g) \<Rightarrow> (Returned True, recorded p S1, W1\<lparr>host := g\<rparr>)
            | (Threw err, g) \<Rightarrow> (Threw err, S1, W1\<lparr>host := g\<rparr>))
         else if \<not> hasOwnProperty (fakeWindow S) p \<and> hasOwnProperty (host W1) p then
           (case getOwnPropertyDescriptor (host W1) p of
              None \<Rightarrow> (Threw TypeError, S, W1)
            | Some descriptor \<Rightarrow>
                if writableOrSet descriptor then
                  (case defineProperty (fakeWindow S) p
                          \<lparr>at_value = Some v, at_writable = Some True, at_get = None,
                           at_set = None, at_enumerable = Some (enumerable descriptor),
                           at_configurable = Some (configurable descriptor)\<rparr> of
                     Returned t \<Rightarrow> (Returned True, recorded p (S\<lparr>fakeWindow := t\<rparr>), W1)
                   | Threw err \<Rightarrow> (Threw err, S, W1))
                else (Returned True, recorded p S, W1))
         else
           (case js_set_on E (fakeWindow S) p v (host W1) of
              (Returned u, t, g) \<Rightarrow>
                (Returned True, recorded p (S\<lparr>fakeWindow := t\<rparr>), W1\<lparr>host := g\<rparr>)
            | (Threw err, t, g) \<Rightarrow> (Threw err, S, W1\<lparr>host := g\<rparr>)))
      else (Returned True, S, W))"

text \<open>
  The assignment \<^verbatim>\<open>proxy[p] = v\<close> in strict code is the language's [[Set]] of the Proxy:
  the handler above, then the check of what it answered against the target. A handler
  that answers \<^verbatim>\<open>true\<close> for a target property that is neither configurable nor writable
  and holds another value, or that is a non-configurable accessor without setter, makes
  the assignment throw a \<^verbatim>\<open>TypeError\<close>; so does the answer \<^verbatim>\<open>false\<close>.
\<close>

definition setInvariantBroken :: "jsobj \<Rightarrow> pkey \<Rightarrow> val \<Rightarrow> bool" where
  "setInvariantBroken target p v =
     (case getOwnPropertyDescriptor target p of
        None \<Rightarrow> False
      | Some (Data v0 w e c) \<Rightarrow> \<not> c \<and> \<not> w \<and> v \<noteq> v0
      | Some (Accessor g s e c) \<Rightarrow> \<not> c \<and> s = Undefined)"

definition proxy_assign :: "env \<Rightarrow> proxySandbox \<Rightarrow> pkey \<Rightarrow> val \<Rightarrow> world \<Rightarrow> unit outcome \<times> proxySandbox \<times> world" where
  "proxy_assign E S p v W =
     (case proxy_set E S p v W of
        (Returned ok, S', W') \<Rightarrow>
          if ok \<and> \<not> setInvariantBroken (fakeWindow S') p v then (Returned (), S', W')
          else (Threw TypeError, S', W')
      | (Threw err, S', W') \<Rightarrow> (Threw err, S', W'))"

definition whitelistGuard :: "env \<Rightarrow> pkey \<Rightarrow> bool" where
  \<comment> \<open>the guard of the get trap's whitelist branch:
      \<^verbatim>\<open>p === 'string' && globalVariableWhiteList.indexOf(p) !== -1\<close>\<close>
  "whitelistGuard E p = (p = Str ''string'' \<and> ''string'' \<in> set (globalVariableWhiteList E))"

definition genericGet :: "env \<Rightarrow> proxySandbox \<Rightarrow> pkey \<Rightarrow> world \<Rightarrow> val outcome \<times> world" where
  \<comment> \<open>the get trap from \<^verbatim>\<open>const actualTarget = ...\<close> to its end\<close>
  "genericGet E S p W =
     (let onGlobalContext = (p \<in> set (propertiesWithGetter S) \<or> \<not> js_in p (fakeWindow S));
          actualTarget = (if onGlobalContext then host W else fakeWindow S) in
      case js_get E (if onGlobalContext then OnHost else OnOther) (host W) actualTarget p of
        Returned v \<Rightarrow>
          if isPropertyFrozen E actualTarget p then (Returned v, W)
          else
            (let boundTarget =
                   (if useNativeWindowForBindingsProps E p then nativeGlobal E
                    else Ref (hostRef W))
             in getTargetValue E boundTarget v W)
      | Threw err \<Rightarrow> (Threw err, W))"

definition proxy_get :: "env \<Rightarrow> proxySandbox \<Rightarrow> pkey \<Rightarrow> world \<Rightarrow> val outcome \<times> world" where
  "proxy_get E S p W =
     (let W1 = registerRunningApp S W in
      if p = Sym ''Symbol.unscopables'' then (Returned (unscopablesRef E), W1)
      else if p = Str ''window'' \<or> p = Str ''self'' then (Returned (proxy S), W1)
      else if p = Str ''globalThis'' \<or> (inTest E \<and> p = Str mockGlobalThis)
        then (Returned (proxy S), W1)
      else if p = Str ''top'' \<or> p = Str ''parent''
              \<or> (inTest E \<and> (p = Str mockTop \<or> p = Str mockSafariTop)) then
        (case js_get E OnHost (host W1) (host W1) (Str ''parent'') of
           Returned parent \<Rightarrow>
             if parent = Ref (hostRef W1) then (Returned (proxy S), W1)
             else (js_get E OnHost (host W1) (host W1) p, W1)
         | Threw err \<Rightarrow> (Threw err, W1))
      else if p = Str ''hasOwnProperty'' then (Returned (hasOwnPropertyFn S), W1)
      else if p = Str ''document'' then (Returned (document S), W1)
      else if p = Str ''eval'' then (Returned (evalFn E), W1)
      else if whitelistGuard E p then (js_get E OnHost (host W1) (host W1) p, W1)
      else genericGet E S p W1)"

definition proxy_has :: "env \<Rightarrow> proxySandbox \<Rightarrow> pkey \<Rightarrow> world \<Rightarrow> bool outcome \<times> world" where
  "proxy_has E S p W =
     (Returned (inCachedGlobalObjects E p \<or> js_in p (fakeWindow S) \<or> js_in p (host W)), W)"

definition proxy_getOwnPropertyDescriptor ::
    "proxySandbox \<Rightarrow> pkey \<Rightarrow> world \<Rightarrow> desc option outcome \<times> proxySandbox \<times> world" where
  "proxy_getOwnPropertyDescriptor S p W =
     (if hasOwnProperty (fakeWindow S) p then
        (Returned (getOwnPropertyDescriptor (fakeWindow S) p),
         S\<lparr>descriptorTargetMap := (descriptorTargetMap S)(p \<mapsto> FromTarget)\<rparr>, W)
      else if hasOwnProperty (host W) p then
        (Returned
           (case getOwnPropertyDescriptor (host W) p of
              None \<Rightarrow> None
            | Some (Data v w e c) \<Rightarrow> Some (Data v w e True)
            | Some (Accessor g s e c) \<Rightarrow> Some (Accessor g s e True)),
         S\<lparr>descriptorTargetMap := (descriptorTargetMap S)(p \<mapsto> FromGlobalContext)\<rparr>, W)
      else (Returned None, S, W))"


definition proxy_deleteProperty ::
    "proxySandbox \<Rightarrow> pkey \<Rightarrow> world \<Rightarrow> bool outcome \<times> proxySandbox \<times> world" where
  "proxy_deleteProperty S p W =
     (let W1 = registerRunningApp S W in
      if hasOwnProperty (fakeWindow S) p then
        (case js_delete (fakeWindow S) p of
           Returned t \<Rightarrow>
             (Returned True,
              S\<lparr>fakeWindow := t, updatedValueSet := updatedValueSet S - {p}\<rparr>, W1)
         | Threw err \<Rightarrow> (Threw err, S, W1))
      else (Returned True, S, W1))"

section \<open>The diffing sandbox (class LegacySandbox)\<close>

text \<open>
  The three maps are JavaScript \<^verbatim>\<open>Map\<close>s: association lists in insertion order, where
  \<^verbatim>\<open>set\<close> on a key already present replaces its value in place. This sandbox works on
  the host global object alone (\<^verbatim>\<open>rawWindow\<close>, \<^verbatim>\<open>this.globalContext\<close>).
\<close>

record legacySandbox = sandbox +
  addedPropsMapInSandbox :: "(pkey \<times> val) list"
  modifiedPropsOriginalValueMapInSandbox :: "(pkey \<times> val) list"
  currentUpdatedPropsValueMap :: "(pkey \<times> val) list"

definition isPropConfigurable :: "jsobj \<Rightarrow> pkey \<Rightarrow> bool" where
  "isPropConfigurable target prop =
     (case getOwnPropertyDescriptor target prop of
        None \<Rightarrow> True
      | Some descriptor \<Rightarrow> configurable descriptor)"

definition isSymbol :: "pkey \<Rightarrow> bool" where
  \<comment> \<open>\<^verbatim>\<open>typeof prop === 'symbol'\<close>\<close>
  "isSymbol prop = (case prop of Str k \<Rightarrow> False | Sym k \<Rightarrow> True)"


definition setWindowProp :: "env \<Rightarrow> pkey \<Rightarrow> val \<Rightarrow> bool \<Rightarrow> jsobj \<Rightarrow> unit outcome \<times> jsobj" where
  "setWindowProp E prop v toDelete globalContext =
     (if v = Undefined \<and> toDelete then step globalContext (js_delete globalContext prop)
      else if isPropConfigurable globalContext prop \<and> \<not> isSymbol prop then
        (case defineProperty globalContext prop
                \<lparr>at_value = None, at_writable = Some True, at_get = None, at_set = None,
                 at_enumerable = None, at_configurable = Some True\<rparr> of
           Returned g \<Rightarrow> js_set E g prop v
         | Threw err \<Rightarrow> (Threw err, globalContext))
      else (Returned (), globalContext))"

definition LegacySandbox :: "string \<Rightarrow> val \<Rightarrow> legacySandbox" where
  "LegacySandbox nm proxyRef =
     \<lparr>name = nm, proxy = proxyRef, sandboxRunning = True, latestSetProp = None,
      addedPropsMapInSandbox = [], modifiedPropsOriginalValueMapInSandbox = [],
      currentUpdatedPropsValueMap = []\<rparr>"

definition legacy_active :: "env \<Rightarrow> legacySandbox \<Rightarrow> jsobj \<Rightarrow> unit outcome \<times> legacySandbox \<times> jsobj" where
  "legacy_active E S globalContext =
     (if \<not> sandboxRunning S then
        (case forEach (\<lambda>(p, v). setWindowProp E p v False)
                (currentUpdatedPropsValueMap S) globalContext of
           (Returned u, g) \<Rightarrow> (Returned (), S\<lparr>sandboxRunning := True\<rparr>, g)
         | (Threw err, g) \<Rightarrow> (Threw err, S, g))
      else (Returned (), S\<lparr>sandboxRunning := True\<rparr>, globalContext))"

definition legacy_inactive :: "env \<Rightarrow> legacySandbox \<Rightarrow> jsobj \<Rightarrow> unit outcome \<times> legacySandbox \<times> jsobj" where
  "legacy_inactive E S globalContext =
     (case forEach (\<lambda>(p, v). setWindowProp E p v False)
             (modifiedPropsOriginalValueMapInSandbox S) globalContext of
        (Returned u, g) \<Rightarrow>
          (case forEach (\<lambda>(p, v). setWindowProp E p Undefined True)
                  (addedPropsMapInSandbox S) g of
             (Returned u', g') \<Rightarrow> (Returned (), S\<lparr>sandboxRunning := False\<rparr>, g')
           | (Threw err, g') \<Rightarrow> (Threw err, S, g'))
      | (Threw err, g) \<Rightarrow> (Threw err, S, g))"

definition setTrap ::
    "env \<Rightarrow> legacySandbox \<Rightarrow> pkey \<Rightarrow> val \<Rightarrow> val \<Rightarrow> bool \<Rightarrow> jsobj \<Rightarrow> bool outcome \<times> legacySandbox \<times> jsobj" where
  "setTrap E S p v originalValue sync2Window rawWindow =
     (if sandboxRunning S then
        (let S1 = (if \<not> hasOwnProperty rawWindow p
                   then S\<lparr>addedPropsMapInSandbox :=
                            AList.update p v (addedPropsMapInSandbox S)\<rparr>
                   else if map_of (modifiedPropsOriginalValueMapInSandbox S) p = None
                   then S\<lparr>modifiedPropsOriginalValueMapInSandbox :=
                            AList.update p originalValue
                              (modifiedPropsOriginalValueMapInSandbox S)\<rparr>
                   else S);
             S2 = S1\<lparr>currentUpdatedPropsValueMap :=
                       AList.update p v (currentUpdatedPropsValueMap S1)\<rparr>
         in if sync2Window then
              (case js_set E rawWindow p v of
                 (Returned u, g) \<Rightarrow> (Returned True, S2\<lparr>latestSetProp := Some p\<rparr>, g)
               | (Threw err, g) \<Rightarrow> (Threw err, S2, g))
            else (Returned True, S2\<lparr>latestSetProp := Some p\<rparr>, rawWindow))
      else (Returned True, S, rawWindow))"

definition legacy_set ::
    "env \<Rightarrow> legacySandbox \<Rightarrow> pkey \<Rightarrow> val \<Rightarrow> jsobj \<Rightarrow> bool outcome \<times> legacySandbox \<times> jsobj" where
  \<comment> \<open>the \<^verbatim>\<open>set\<close> trap: it reads \<^verbatim>\<open>rawWindow[p]\<close>, then calls \<^verbatim>\<open>setTrap\<close>\<close>
  "legacy_set E S p v rawWindow =
     (case js_get E OnHost rawWindow rawWindow p of
        Returned originalValue \<Rightarrow> setTrap E S p v originalValue True rawWindow
      | Threw err \<Rightarrow> (Threw err, S, rawWindow))"

text \<open>
  A run of writes through the proxy, one after the other; it ends at the first write
  that throws.
\<close>

fun legacy_writes ::
    "env \<Rightarrow> (pkey \<times> val) list \<Rightarrow> legacySandbox \<Rightarrow> jsobj \<Rightarrow> bool outcome \<times> legacySandbox \<times> jsobj" where
  "legacy_writes E [] S g = (Returned True, S, g)"
| "legacy_writes E (pv # ws) S g =
     (case legacy_set E S (fst pv) (snd pv) g of
        (Returned ok, S', g') \<Rightarrow> legacy_writes E ws S' g'
      | (Threw err, S', g') \<Rightarrow> (Threw err, S', g'))"


section \<open>Example states\<close>

text \<open>
  A host global object with a non-configurable self-reference \<^verbatim>\<open>window\<close>, a non-writable
  constant, a global declared with \<^verbatim>\<open>var\<close> (writable, not configurable), an ordinary
  configurable global, a native function, an accessor whose getter throws, and a
  non-configurable property under a symbol.
\<close>

definition exampleHost :: jsobj where
  "exampleHost =
     \<lparr>own = [(Str ''window'', Data (Ref 0) False True False),
             (Str ''NaN'', Data (Num 0) False False False),
             (Str ''counter'', Data (Num 1) True True False),
             (Str ''title'', Data (Text ''home'') True True True),
             (Str ''atob'', Data (Ref 10) True False True),
             (Str ''localStorage'', Accessor (Ref 20) Undefined True True),
             (Sym ''tag'', Data (Num 5) False False False)],
      inherited = []\<rparr>"

text \<open>
  A second host, with accessor properties whose functions are written in JavaScript:
  \<^verbatim>\<open>shared\<close> was made by
  \<^verbatim>\<open>Object.defineProperty(window, 'shared', {get() {return window.store}, set(v) {window.store = v}, enumerable: true})\<close>,
  so it is not configurable; \<^verbatim>\<open>theme\<close> (configurable) and \<^verbatim>\<open>locked\<close> (not configurable)
  have a getter that returns 7 and a setter that does nothing. The host inherits the
  accessor \<^verbatim>\<open>__proto__\<close>, whose setter replaces the host's prototype. \<^verbatim>\<open>greet\<close> is a
  function whose \<^verbatim>\<open>name\<close> has been made enumerable, and there is a configurable property
  under a symbol.
\<close>

definition accessorHost :: jsobj where
  "accessorHost =
     \<lparr>own = [(Str ''window'', Data (Ref 0) False True False),
             (Str ''title'', Data (Text ''home'') True True True),
             (Str ''store'', Data (Num 1) True True True),
             (Str ''shared'', Accessor (Ref 30) (Ref 31) True False),
             (Str ''theme'', Accessor (Ref 32) (Ref 33) True True),
             (Str ''locked'', Accessor (Ref 32) (Ref 33) True False),
             (Str ''greet'', Data (Ref 13) True True True),
             (Sym ''kind'', Data (Num 5) True False True)],
      inherited = [(Str ''__proto__'', Accessor (Ref 34) (Ref 35) False True)]\<rparr>"

definition exampleFunctionPrototype :: jsobj where
  "exampleFunctionPrototype =
     \<lparr>own = [(Str ''toString'', Data (Ref 40) True False True)], inherited = []\<rparr>"

definition plainFunction :: jsobj where
  \<comment> \<open>the properties of a function as the language makes it\<close>
  "plainFunction =
     \<lparr>own = [(Str ''length'', Data (Num 1) False False True),
             (Str ''name'', Data (Text ''atob'') False False True)],
      inherited = own exampleFunctionPrototype\<rparr>"

definition namedFunction :: jsobj where
  \<comment> \<open>a function after \<^verbatim>\<open>Object.defineProperty(greet, 'name', {value: 'greet', enumerable: true})\<close>\<close>
  "namedFunction =
     \<lparr>own = [(Str ''length'', Data (Num 0) False False True),
             (Str ''name'', Data (Text ''greet'') False True True)],
      inherited = own exampleFunctionPrototype\<rparr>"

definition stored :: "jsobj \<Rightarrow> val" where
  \<comment> \<open>\<^verbatim>\<open>window.store\<close>\<close>
  "stored g = (case getOwnPropertyDescriptor g (Str ''store'') of
                 Some (Data v w e c) \<Rightarrow> v | _ \<Rightarrow> Undefined)"

definition exampleEnv :: "node_env \<Rightarrow> env" where
  "exampleEnv mode =
     \<lparr>nodeEnv = mode, qiankunDevelopment = False, globals = [''Array'', ''Object''],
      nativeGlobal = Ref 0, globalDocument = Ref 1, evalFn = Ref 2, unscopablesRef = Ref 3,
      objectPrototype = [],
      functionPrototype = exampleFunctionPrototype,
      isCallable = (\<lambda>v. v = Ref 10 \<or> v = Ref 11 \<or> v = Ref 12 \<or> v = Ref 13),
      isBoundedFunction = (\<lambda>v. v = Ref 11),
      isConstructable = (\<lambda>v. v = Ref 12),
      isPropertyFrozen =
        (\<lambda>obj p. case getOwnPropertyDescriptor obj p of
                    None \<Rightarrow> False
                  | Some (Data v w e c) \<Rightarrow> \<not> c \<and> \<not> w
                  | Some (Accessor g s e c) \<Rightarrow> \<not> c \<and> truthy g \<and> \<not> truthy s),
      typeofFunction =
        (\<lambda>v. v = Ref 10 \<or> v = Ref 11 \<or> v = Ref 12 \<or> v = Ref 13 \<or> v = Ref 40),
      boundLength = (\<lambda>v. Num 0),
      boundName = (\<lambda>v. Text ''bound''),
      getterCall =
        (\<lambda>f r g. if f = Ref 20 then Inl GetterError
                  else if f = Ref 30 then Inr (stored g)
                  else Inr (Num 7)),
      setterCall =
        (\<lambda>f r v g.
           if f = Ref 31
           then (Returned (),
                 g\<lparr>own := AList.update (Str ''store'') (Data v True True True) (own g)\<rparr>)
           else if f = Ref 35 then (Returned (), g\<lparr>inherited := []\<rparr>)
           else (Returned (), g))\<rparr>"

definition exampleWorld :: world where
  "exampleWorld =
     \<lparr>host = exampleHost, hostRef = 0, activeSandboxCount = 0, currentRunningApp = None,
      clearScheduled = False, functionBoundedValueMap = Map.empty,
      functionObjects = (\<lambda>v. if v = Ref 13 then namedFunction else plainFunction),
      boundFunctions = Map.empty, nextRef = 100\<rparr>"

text \<open>
  Two multiplexed sandboxes constructed one after the other over the example host, and
  a diffing sandbox that has been deactivated.
\<close>

definition exampleApps :: "node_env \<Rightarrow> proxySandbox \<times> proxySandbox \<times> world" where
  "exampleApps mode =
     (let (A, W1) = ProxySandbox (exampleEnv mode) ''appA'' False (Ref 50) (Ref 51) exampleWorld;
          (B, W2) = ProxySandbox (exampleEnv mode) ''appB'' False (Ref 60) (Ref 61) W1
      in (A, B, W2))"

definition exampleFakeWindow :: jsobj where
  "exampleFakeWindow =
     \<lparr>own = [(Str ''window'', Data (Ref 0) True True True),
             (Str ''NaN'', Data (Num 0) False False False),
             (Str ''counter'', Data (Num 1) True True False)],
      inherited = []\<rparr>"

definition exampleA :: proxySandbox where
  "exampleA =
     \<lparr>name = ''appA'', proxy = Ref 50, sandboxRunning = True, latestSetProp = None,
      fakeWindow = exampleFakeWindow, propertiesWithGetter = [],
      descriptorTargetMap = Map.empty, updatedValueSet = {},
      document = Ref 1, globalWhitelistPrevDescriptor = [], hasOwnPropertyFn = Ref 51\<rparr>"

definition exampleB :: proxySandbox where
  "exampleB =
     \<lparr>name = ''appB'', proxy = Ref 60, sandboxRunning = True, latestSetProp = None,
      fakeWindow = exampleFakeWindow, propertiesWithGetter = [],
      descriptorTargetMap = Map.empty, updatedValueSet = {},
      document = Ref 1, globalWhitelistPrevDescriptor = [], hasOwnPropertyFn = Ref 61\<rparr>"

definition exampleLegacy :: legacySandbox where
  "exampleLegacy =
     fst (snd (legacy_inactive (exampleEnv Production) (LegacySandbox ''appL'' (Ref 70)) exampleHost))"

definition exampleWorld2 :: world where
  \<comment> \<open>the world once both example sandboxes are constructed\<close>
  "exampleWorld2 = exampleWorld\<lparr>activeSandboxCount := 2\<rparr>"

text \<open>
  The same two sandboxes constructed over the second host.
\<close>

definition accessorFakeWindow :: jsobj where
  "accessorFakeWindow =
     \<lparr>own = [(Str ''window'', Data (Ref 0) True True True),
             (Str ''shared'', Accessor (Ref 30) (Ref 31) True False),
             (Str ''locked'', Accessor (Ref 32) (Ref 33) True False)],
      inherited = []\<rparr>"

definition accessorA :: proxySandbox where
  "accessorA = exampleA\<lparr>fakeWindow := accessorFakeWindow,
                        propertiesWithGetter := [Str ''shared'', Str ''locked'']\<rparr>"

definition accessorB :: proxySandbox where
  "accessorB = exampleB\<lparr>fakeWindow := accessorFakeWindow,
                        propertiesWithGetter := [Str ''shared'', Str ''locked'']\<rparr>"

definition accessorWorld :: world where
  "accessorWorld = exampleWorld\<lparr>host := accessorHost\<rparr>"

definition accessorWorld2 :: world where
  "accessorWorld2 = exampleWorld2\<lparr>host := accessorHost\<rparr>"

definition accessorApps :: "proxySandbox \<times> proxySandbox \<times> world" where
  "accessorApps =
     (let (A, W1) = ProxySandbox (exampleEnv Production) ''appA'' False (Ref 50) (Ref 51)
                      accessorWorld;
          (B, W2) = ProxySandbox (exampleEnv Production) ''appB'' False (Ref 60) (Ref 61) W1
      in (A, B, W2))"

definition sharedWritten :: "bool outcome \<times> proxySandbox \<times> world" where
  \<comment> \<open>\<^verbatim>\<open>shared = 9\<close> through the proxy of \<open>appA\<close>\<close>
  "sharedWritten =
     proxy_set (exampleEnv Production) accessorA (Str ''shared'') (Num 9) accessorWorld2"

text \<open>
  A newly constructed diffing sandbox over a host: a run of writes through its proxy,
  then \<^verbatim>\<open>inactive()\<close>, then \<^verbatim>\<open>active()\<close>.
\<close>

definition exampleWritten :: "jsobj \<Rightarrow> (pkey \<times> val) list \<Rightarrow> bool outcome \<times> legacySandbox \<times> jsobj" where
  "exampleWritten g ws =
     legacy_writes (exampleEnv Production) ws (LegacySandbox ''appL'' (Ref 70)) g"

definition exampleDeactivated :: "jsobj \<Rightarrow> (pkey \<times> val) list \<Rightarrow> unit outcome \<times> legacySandbox \<times> jsobj" where
  "exampleDeactivated g ws =
     legacy_inactive (exampleEnv Production)
       (fst (snd (exampleWritten g ws))) (snd (snd (exampleWritten g ws)))"

definition exampleReactivated :: "jsobj \<Rightarrow> (pkey \<times> val) list \<Rightarrow> unit outcome \<times> legacySandbox \<times> jsobj" where
  "exampleReactivated g ws =
     legacy_active (exampleEnv Production)
       (fst (snd (exampleDeactivated g ws))) (snd (snd (exampleDeactivated g ws)))"

text \<open>
  The two example sandboxes each write the whitelisted \<^verbatim>\<open>System\<close>, \<open>appA\<close> first; then
  \<open>appA\<close> is deactivated, then \<open>appB\<close>.
\<close>

definition systemWrittenByA :: "node_env \<Rightarrow> bool outcome \<times> proxySandbox \<times> world" where
  "systemWrittenByA mode =
     proxy_set (exampleEnv mode) exampleA (Str ''System'') (Num 1) exampleWorld2"

definition systemWrittenByB :: "node_env \<Rightarrow> bool outcome \<times> proxySandbox \<times> world" where
  "systemWrittenByB mode =
     proxy_set (exampleEnv mode) exampleB (Str ''System'') (Num 2)
       (snd (snd (systemWrittenByA mode)))"

definition firstDeactivated :: "node_env \<Rightarrow> unit outcome \<times> proxySandbox \<times> world" where
  "firstDeactivated mode =
     proxy_inactive (exampleEnv mode) (fst (snd (systemWrittenByA mode)))
       (snd (snd (systemWrittenByB mode)))"

definition lastDeactivated :: "node_env \<Rightarrow> unit outcome \<times> proxySandbox \<times> world" where
  "lastDeactivated mode =
     proxy_inactive (exampleEnv mode) (fst (snd (systemWrittenByB mode)))
       (snd (snd (firstDeactivated mode)))"

text \<open>
  One sandbox alone writes \<^verbatim>\<open>System\<close> twice and is then deactivated.
\<close>

definition systemWrittenOnce :: "bool outcome \<times> proxySandbox \<times> world" where
  "systemWrittenOnce =
     proxy_set (exampleEnv Production) exampleA (Str ''System'') (Num 1)
       (exampleWorld\<lparr>activeSandboxCount := 1\<rparr>)"

definition systemWrittenTwice :: "bool outcome \<times> proxySandbox \<times> world" where
  "systemWrittenTwice =
     proxy_set (exampleEnv Production) (fst (snd systemWrittenOnce)) (Str ''System'') (Num 2)
       (snd (snd systemWrittenOnce))"

definition systemRestored :: "unit outcome \<times> proxySandbox \<times> world" where
  "systemRestored =
     proxy_inactive (exampleEnv Production) (fst (snd systemWrittenTwice))
       (snd (snd systemWrittenTwice))"

section \<open>Evaluation of the examples\<close>

lemmas example_defs =
  exampleEnv_def exampleWorld_def exampleWorld2_def exampleHost_def exampleFakeWindow_def
  exampleA_def exampleB_def

lemmas object_defs =
  getOwnPropertyDescriptor_def hasOwnProperty_def findProperty_def js_in_def js_get_def
  js_set_def js_set_on_def assignment_def js_delete_def defineProperty_def
  isAccessorAttrs_def isDataAttrs_def orElse_def newProperty_def step_def

lemmas whitelist_defs =
  inWhiteList_def whitelistGuard_def globalVariableWhiteList_def variableWhiteListInDev_def

lemmas construction_defs =
  ProxySandbox_def createFakeWindow_def nonConfigurableNames_def
  getOwnPropertyNames_def List.map_filter_simps isSelfReference_def inTest_def
  mockTop_def mockSafariTop_def

lemma exampleApps_eval:
  "exampleApps mode = (exampleA, exampleB, exampleWorld2)"
  by (simp add: exampleApps_def construction_defs example_defs object_defs)

lemma accessorApps_eval:
  "accessorApps = (accessorA, accessorB, accessorWorld2)"
  by (simp add: accessorApps_def construction_defs example_defs object_defs
        accessorA_def accessorB_def accessorWorld_def accessorWorld2_def accessorHost_def
        accessorFakeWindow_def)

lemma exampleLegacy_eval:
  "exampleLegacy = (LegacySandbox ''appL'' (Ref 70))\<lparr>sandboxRunning := False\<rparr>"
  by (simp add: exampleLegacy_def legacy_inactive_def LegacySandbox_def)

lemma exampleA_constructed:
  "ProxySandbox (exampleEnv mode) ''appA'' False (Ref 50) (Ref 51) exampleWorld
     = (exampleA, exampleWorld\<lparr>activeSandboxCount := 1\<rparr>)"
  by (simp add: construction_defs example_defs object_defs)

section \<open>The running-app registry under the traps\<close>

lemma registerRunningApp_fields:
  "host (registerRunningApp S W) = host W"
  "hostRef (registerRunningApp S W) = hostRef W"
  "functionBoundedValueMap (registerRunningApp S W) = functionBoundedValueMap W"
  "functionObjects (registerRunningApp S W) = functionObjects W"
  "boundFunctions (registerRunningApp S W) = boundFunctions W"
  "nextRef (registerRunningApp S W) = nextRef W"
  "activeSandboxCount (registerRunningApp S W) = activeSandboxCount W"
  by (simp_all add: registerRunningApp_def nextTask_def setCurrentRunningApp_def
        getCurrentRunningApp_def split: option.splits)

lemma registerRunningApp_current:
  "sandboxRunning S \<Longrightarrow>
   map_option fst (currentRunningApp (registerRunningApp S W)) = Some (name S)"
  by (auto simp add: registerRunningApp_def nextTask_def setCurrentRunningApp_def
        getCurrentRunningApp_def split: option.splits)

lemma getTargetValue_current:
  "currentRunningApp (snd (getTargetValue E t v W)) = currentRunningApp W"
  by (simp add: getTargetValue_def Let_def split: prod.splits outcome.splits)

lemma genericGet_current:
  "currentRunningApp (snd (genericGet E S p W)) = currentRunningApp W"
  by (simp add: genericGet_def Let_def getTargetValue_current split: outcome.splits)

lemma proxy_get_current:
  "currentRunningApp (snd (proxy_get E S p W)) = currentRunningApp (registerRunningApp S W)"
  unfolding proxy_get_def Let_def
  by (simp add: genericGet_current split: outcome.splits)

lemma proxy_set_current:
  "sandboxRunning S \<Longrightarrow>
   currentRunningApp (snd (snd (proxy_set E S p v W)))
     = currentRunningApp (registerRunningApp S W)"
  unfolding proxy_set_def Let_def
  by (simp split: outcome.splits option.splits prod.splits)

lemma proxy_deleteProperty_current:
  "currentRunningApp (snd (snd (proxy_deleteProperty S p W)))
     = currentRunningApp (registerRunningApp S W)"
  unfolding proxy_deleteProperty_def Let_def
  by (simp split: outcome.splits option.splits)

text \<open>
  C9, as the code has it. An active multiplexed sandbox is the registry's current app
  (by name) right after its read, write or delete trap; the \<^verbatim>\<open>has\<close> trap does not call
  \<^verbatim>\<open>registerRunningApp\<close> and leaves the whole process-wide state as it was.
\<close>

theorem traps_register_running_app:
  "sandboxRunning S \<Longrightarrow>
     map_option fst (currentRunningApp (snd (proxy_get E S p W))) = Some (name S)
   \<and> map_option fst (currentRunningApp (snd (snd (proxy_set E S p v W)))) = Some (name S)
   \<and> map_option fst (currentRunningApp (snd (snd (proxy_deleteProperty S p W)))) = Some (name S)
   \<and> snd (proxy_has E S p W) = W"
  by (simp add: proxy_get_current proxy_set_current proxy_deleteProperty_current
        registerRunningApp_current proxy_has_def)

theorem traps_register_running_app_witness:
  "sandboxRunning exampleA
   \<and> map_option fst (currentRunningApp
        (snd (proxy_get (exampleEnv Production) exampleA (Str ''title'') exampleWorld2)))
       = Some ''appA''
   \<and> map_option fst (currentRunningApp
        (snd (snd (proxy_set (exampleEnv Production) exampleA (Str ''title'') (Num 3) exampleWorld2))))
       = Some ''appA''
   \<and> map_option fst (currentRunningApp
        (snd (snd (proxy_deleteProperty exampleA (Str ''title'') exampleWorld2))))
       = Some ''appA''
   \<and> snd (proxy_has (exampleEnv Production) exampleA (Str ''title'') exampleWorld2) = exampleWorld2"
proof -
  have h: "sandboxRunning exampleA" by (simp add: exampleA_def)
  show ?thesis
    using h traps_register_running_app [OF h, of "exampleEnv Production" "Str ''title''"
        exampleWorld2 "Num 3"]
    by (simp add: exampleA_def)
qed

text \<open>
  C9, as the claim states it, fails for \<^verbatim>\<open>has\<close>: with nobody registered, a \<^verbatim>\<open>has\<close> through
  the active sandbox \<open>appA\<close> answers and the registry still names nobody.
\<close>

theorem has_trap_registers_nothing:
  "sandboxRunning exampleA
   \<and> fst (proxy_has (exampleEnv Production) exampleA (Str ''title'') exampleWorld2) = Returned True
   \<and> currentRunningApp
        (snd (proxy_has (exampleEnv Production) exampleA (Str ''title'') exampleWorld2)) = None"
  by (simp add: proxy_has_def example_defs object_defs)

section \<open>The whitelist branch of the get trap\<close>

text \<open>
  C10. The guard of the get trap's whitelist branch holds for no key in no environment,
  and a read of a whitelisted key is the generic lookup (after the registration that
  opens the trap).
\<close>

theorem get_whitelist_branch_unreachable:
  "\<not> whitelistGuard E p
   \<and> (inWhiteList E p \<longrightarrow>
        proxy_get E S p W = genericGet E S p (registerRunningApp S W))"
  by (auto simp add: whitelist_defs proxy_get_def mockGlobalThis_def mockTop_def
        mockSafariTop_def Let_def split: pkey.splits if_splits)

theorem get_whitelist_branch_unreachable_witness:
  "inWhiteList (exampleEnv Production) (Str ''System'')
   \<and> \<not> whitelistGuard (exampleEnv Production) (Str ''System'')
   \<and> proxy_get (exampleEnv Production) exampleA (Str ''System'') exampleWorld2
       = genericGet (exampleEnv Production) exampleA (Str ''System'')
           (registerRunningApp exampleA exampleWorld2)"
proof -
  have h: "inWhiteList (exampleEnv Production) (Str ''System'')"
    by (simp add: whitelist_defs)
  show ?thesis
    using h get_whitelist_branch_unreachable
            [of "exampleEnv Production" "Str ''System''" exampleA exampleWorld2]
    by simp
qed

section \<open>Writes while the sandbox is inactive\<close>

lemma proxy_set_inactive:
  "\<not> sandboxRunning S \<Longrightarrow> proxy_set E S p v W = (Returned True, S, W)"
  by (simp add: proxy_set_def)

lemma legacy_set_inactive:
  "\<not> sandboxRunning L \<Longrightarrow> js_get E OnHost g g p = Returned v0 \<Longrightarrow>
   legacy_set E L p v g = (Returned True, L, g)"
  by (simp add: legacy_set_def setTrap_def)

text \<open>
  The handler of the multiplexed sandbox answers \<^verbatim>\<open>true\<close> while inactive, but the
  assignment through the Proxy still throws where the fake window holds the key as a
  constant: the language checks the handler's answer against the target.
\<close>

lemma inactive_assign_constant_throws:
  "proxy_assign (exampleEnv Production) (exampleA\<lparr>sandboxRunning := False\<rparr>) (Str ''NaN'') (Num 1)
     exampleWorld2
   = (Threw TypeError, exampleA\<lparr>sandboxRunning := False\<rparr>, exampleWorld2)"
  by (simp add: proxy_assign_def proxy_set_def setInvariantBroken_def example_defs object_defs)

text \<open>
  C6. The set trap of the multiplexed sandbox answers \<^verbatim>\<open>true\<close> and changes nothing
  (\<open>proxy_set_inactive\<close>), and so does that of the diffing sandbox whenever reading the
  key from the host returns (\<open>legacy_set_inactive\<close>).
  The set trap of the diffing sandbox reads \<^verbatim>\<open>rawWindow[p]\<close> before \<^verbatim>\<open>setTrap\<close> looks at
  the running flag: on the deactivated example sandbox, a write of \<^verbatim>\<open>localStorage\<close>,
  whose host getter throws, throws.
\<close>

theorem legacy_inactive_write_throws:
  "sandboxRunning exampleLegacy = False
   \<and> legacy_set (exampleEnv Production) exampleLegacy (Str ''localStorage'') (Num 1) exampleHost
       = (Threw GetterError, exampleLegacy, exampleHost)"
  by (simp add: exampleLegacy_eval LegacySandbox_def legacy_set_def example_defs object_defs)

section \<open>Whitelisted globals: recording and restoring\<close>

lemma newProperty_complete: "newProperty (complete d) = d"
  by (cases d) (simp_all add: newProperty_def isAccessorAttrs_def orElse_def)

lemma applied_complete: "applied d0 (complete d) = d"
  by (cases d0; cases d) (simp_all add: isAccessorAttrs_def isDataAttrs_def orElse_def)

lemma defineProperty_complete:
  assumes "defineProperty g x (complete d) = Returned g'"
  shows "getOwnPropertyDescriptor g' x = Some d
       \<and> (\<forall>y. y \<noteq> x \<longrightarrow> getOwnPropertyDescriptor g' y = getOwnPropertyDescriptor g y)"
  using assms
  by (auto simp add: defineProperty_def getOwnPropertyDescriptor_def update_conv'
        newProperty_complete applied_complete split: option.splits if_splits)

lemma js_delete_effect:
  assumes "js_delete g x = Returned g'"
  shows "getOwnPropertyDescriptor g' x = None
       \<and> (\<forall>y. y \<noteq> x \<longrightarrow> getOwnPropertyDescriptor g' y = getOwnPropertyDescriptor g y)"
  using assms
  by (auto simp add: js_delete_def getOwnPropertyDescriptor_def delete_conv'
        split: option.splits if_splits)

lemma step_Returned: "step g r = (Returned u, g') \<longleftrightarrow> r = Returned g'"
  by (cases r) (simp_all add: step_def)

lemma restoreProp_effect:
  assumes "restoreProp prev x g = (Returned u, g')"
  shows "getOwnPropertyDescriptor g' x = recordedDescriptor prev x
       \<and> (\<forall>y. y \<noteq> x \<longrightarrow> getOwnPropertyDescriptor g' y = getOwnPropertyDescriptor g y)"
proof (cases "recordedDescriptor prev x")
  case None
  then have "js_delete g x = Returned g'"
    using assms by (auto simp add: restoreProp_def recordedDescriptor_def step_Returned split: option.splits)
  with None show ?thesis using js_delete_effect by simp
next
  case (Some d)
  then have "defineProperty g x (complete d) = Returned g'"
    using assms by (auto simp add: restoreProp_def recordedDescriptor_def step_Returned split: option.splits)
  with Some show ?thesis using defineProperty_complete by simp
qed

lemma forEach_restore:
  assumes "forEach (restoreProp prev) ps g = (Returned u, g')"
    and "x \<in> set ps \<or> getOwnPropertyDescriptor g x = recordedDescriptor prev x"
  shows "getOwnPropertyDescriptor g' x = recordedDescriptor prev x"
  using assms
proof (induction ps arbitrary: g)
  case Nil
  then show ?case by simp
next
  case (Cons y ps)
  obtain r g1 where step1: "restoreProp prev y g = (r, g1)" by (cases "restoreProp prev y g")
  with Cons.prems(1) have r: "r = Returned ()" and rest: "forEach (restoreProp prev) ps g1 = (Returned u, g')"
    by (cases r; simp)+
  from restoreProp_effect [of prev y g "()" g1] step1 r
  have eff: "getOwnPropertyDescriptor g1 y = recordedDescriptor prev y"
    "\<And>z. z \<noteq> y \<Longrightarrow> getOwnPropertyDescriptor g1 z = getOwnPropertyDescriptor g z"
    by simp_all
  have "x \<in> set ps \<or> getOwnPropertyDescriptor g1 x = recordedDescriptor prev x"
    using Cons.prems(2) eff by (cases "x = y") auto
  with Cons.IH [OF rest] show ?case .
qed


lemmas scenario_defs =
  systemWrittenByA_def systemWrittenByB_def firstDeactivated_def lastDeactivated_def
  systemWrittenOnce_def systemWrittenTwice_def systemRestored_def
  proxy_set_def proxy_inactive_def restoreProp_def recordedDescriptor_def recorded_def
  registerRunningApp_def nextTask_def setCurrentRunningApp_def getCurrentRunningApp_def
  inTest_def

lemmas scen = scenario_defs example_defs object_defs whitelist_defs Let_def

lemma byA: "systemWrittenByA mode =
   (Returned True,
    exampleA\<lparr>latestSetProp := Some (Str ''System''), updatedValueSet := {Str ''System''},
             globalWhitelistPrevDescriptor := [(Str ''System'', None)]\<rparr>,
    exampleWorld2\<lparr>host := exampleHost\<lparr>own := own exampleHost @ [(Str ''System'', Data (Num 1) True True True)]\<rparr>,
                  currentRunningApp := Some (''appA'', Ref 50), clearScheduled := True\<rparr>)"
  by (simp add: scen)

lemma byB: "systemWrittenByB mode =
   (Returned True,
    exampleB\<lparr>latestSetProp := Some (Str ''System''), updatedValueSet := {Str ''System''},
             globalWhitelistPrevDescriptor := [(Str ''System'', Some (Data (Num 1) True True True))]\<rparr>,
    exampleWorld2\<lparr>host := exampleHost\<lparr>own := own exampleHost @ [(Str ''System'', Data (Num 2) True True True)]\<rparr>,
                  currentRunningApp := Some (''appB'', Ref 60), clearScheduled := True\<rparr>)"
  by (simp add: systemWrittenByB_def byA) (simp add: scen)

lemma inactive_while_others_active:
  assumes "\<not> inTest E" "activeSandboxCount W \<noteq> 1"
  shows "proxy_inactive E S W
        = (Returned (), S\<lparr>sandboxRunning := False\<rparr>,
           W\<lparr>activeSandboxCount := activeSandboxCount W - 1\<rparr>)"
  using assms by (simp add: proxy_inactive_def Let_def)


lemma inactive_restores:
  assumes c0: "inTest E \<or> activeSandboxCount W = 1"
    and ret: "proxy_inactive E S W = (Returned (), S', W')"
    and rec: "map_of (globalWhitelistPrevDescriptor S) p = Some d"
  shows "getOwnPropertyDescriptor (host W') p = d \<and> \<not> sandboxRunning S'"
proof -
  define prev where "prev = globalWhitelistPrevDescriptor S"
  define W1 where "W1 = (if inTest E then W else W\<lparr>activeSandboxCount := activeSandboxCount W - 1\<rparr>)"
  have h: "host W1 = host W" by (simp add: W1_def)
  have c: "inTest E \<or> activeSandboxCount W1 = 0" using c0 by (auto simp add: W1_def)
  obtain r g where loop: "forEach (restoreProp prev) (map fst prev) (host W) = (r, g)"
    by (cases "forEach (restoreProp prev) (map fst prev) (host W)")
  have "proxy_inactive E S W =
          (case r of
             Returned u \<Rightarrow> (Returned (), S\<lparr>sandboxRunning := False\<rparr>, W1\<lparr>host := g\<rparr>)
           | Threw err \<Rightarrow> (Threw err, S, W1\<lparr>host := g\<rparr>))"
    unfolding proxy_inactive_def Let_def W1_def [symmetric] prev_def [symmetric]
    using c loop h by (simp split: outcome.splits)
  with ret have "r = Returned () \<and> S' = S\<lparr>sandboxRunning := False\<rparr>
      \<and> W' = W1\<lparr>host := g\<rparr>"
    by (cases r) simp_all
  then have r: "r = Returned ()" and S': "S' = S\<lparr>sandboxRunning := False\<rparr>"
    and W': "W' = W1\<lparr>host := g\<rparr>"
    by simp_all
  have "(p, d) \<in> set prev"
    using rec by (simp add: prev_def map_of_SomeD)
  then have key: "p \<in> set (map fst prev)"
    by (auto intro: image_eqI [rotated])
  have "getOwnPropertyDescriptor g p = recordedDescriptor prev p"
    using forEach_restore [of prev "map fst prev" "host W" "()" g p] loop r key by simp
  moreover have "recordedDescriptor prev p = d"
    using rec by (cases d) (simp_all add: recordedDescriptor_def prev_def)
  ultimately show ?thesis
    by (simp add: W' S')
qed

lemma offA: "firstDeactivated Production =
   (Returned (), (fst (snd (systemWrittenByA Production)))\<lparr>sandboxRunning := False\<rparr>,
    (snd (snd (systemWrittenByB Production)))\<lparr>activeSandboxCount := 1\<rparr>)"
  by (simp add: firstDeactivated_def byA byB) (simp add: scen)

lemma offB: "fst (lastDeactivated Production) = Returned ()"
  by (simp add: lastDeactivated_def offA byA byB) (simp add: scen)


lemma eager_restore_under_test:
  "inTest (exampleEnv Test)
   \<and> fst (systemWrittenByB Test) = Returned True
   \<and> sandboxRunning (fst (snd (systemWrittenByB Test)))
   \<and> fst (firstDeactivated Test) = Returned ()
   \<and> getOwnPropertyDescriptor (host (snd (snd (firstDeactivated Test)))) (Str ''System'') = None"
  by (simp add: firstDeactivated_def byA byB) (simp add: scen)

text \<open>
  C4. Outside the test environment, \<^verbatim>\<open>inactive()\<close> of a sandbox that is not the last
  active one leaves the host untouched, as claimed
  (\<open>inactive_while_others_active\<close>), and \<^verbatim>\<open>inactive()\<close> of the last one sets every key
  of its \<^verbatim>\<open>globalWhitelistPrevDescriptor\<close> to what that sandbox has recorded
  (\<open>inactive_restores\<close>). But what a sandbox records is the host's descriptor at its
  own write, not the descriptor of before the activations. In production mode the host
  has no \<^verbatim>\<open>System\<close>; \<open>appA\<close> writes \<^verbatim>\<open>System = 1\<close>, then \<open>appB\<close> writes \<^verbatim>\<open>System = 2\<close>
  and records the descriptor of the value 1; \<open>appA\<close> is deactivated (the counter goes
  from 2 to 1, the host keeps \<^verbatim>\<open>System = 2\<close>), then \<open>appB\<close>, the last one: the host is
  left with \<^verbatim>\<open>System = 1\<close>, which no descriptor of before the activations ever held.
\<close>

theorem last_exit_restores_other_sandbox_write:
  "\<not> inTest (exampleEnv Production)
   \<and> getOwnPropertyDescriptor (host exampleWorld2) (Str ''System'') = None
   \<and> activeSandboxCount exampleWorld2 = 2
   \<and> fst (systemWrittenByA Production) = Returned True
   \<and> fst (systemWrittenByB Production) = Returned True
   \<and> map_of (globalWhitelistPrevDescriptor (fst (snd (systemWrittenByA Production)))) (Str ''System'')
       = Some None
   \<and> map_of (globalWhitelistPrevDescriptor (fst (snd (systemWrittenByB Production)))) (Str ''System'')
       = Some (Some (Data (Num 1) True True True))
   \<and> fst (firstDeactivated Production) = Returned ()
   \<and> activeSandboxCount (snd (snd (firstDeactivated Production))) = 1
   \<and> getOwnPropertyDescriptor (host (snd (snd (firstDeactivated Production)))) (Str ''System'')
       = Some (Data (Num 2) True True True)
   \<and> fst (lastDeactivated Production) = Returned ()
   \<and> activeSandboxCount (snd (snd (lastDeactivated Production))) = 0
   \<and> getOwnPropertyDescriptor (host (snd (snd (lastDeactivated Production)))) (Str ''System'')
       = Some (Data (Num 1) True True True)"
  by (simp add: lastDeactivated_def offA byA byB) (simp add: scen)

lemma once: "systemWrittenOnce =
   (Returned True,
    exampleA\<lparr>latestSetProp := Some (Str ''System''), updatedValueSet := {Str ''System''},
             globalWhitelistPrevDescriptor := [(Str ''System'', None)]\<rparr>,
    exampleWorld\<lparr>activeSandboxCount := 1,
                  host := exampleHost\<lparr>own := own exampleHost @ [(Str ''System'', Data (Num 1) True True True)]\<rparr>,
                  currentRunningApp := Some (''appA'', Ref 50), clearScheduled := True\<rparr>)"
  by (simp add: scen)

lemma twice: "systemWrittenTwice =
   (Returned True,
    exampleA\<lparr>latestSetProp := Some (Str ''System''), updatedValueSet := {Str ''System''},
             globalWhitelistPrevDescriptor := [(Str ''System'', Some (Data (Num 1) True True True))]\<rparr>,
    exampleWorld\<lparr>activeSandboxCount := 1,
                  host := exampleHost\<lparr>own := own exampleHost @ [(Str ''System'', Data (Num 2) True True True)]\<rparr>,
                  currentRunningApp := Some (''appA'', Ref 50), clearScheduled := True\<rparr>)"
  by (simp add: systemWrittenTwice_def once) (simp add: scen)

text \<open>
  C3. The set trap assigns the whitelisted \<^verbatim>\<open>System\<close> on the host at each write, as
  claimed, but it also records the host's descriptor at each write. The host has no
  \<^verbatim>\<open>System\<close>; after the first write \<^verbatim>\<open>undefined\<close> is recorded, after the second the
  descriptor of the first written value has taken its place, and \<^verbatim>\<open>inactive()\<close> of this
  last active sandbox leaves \<^verbatim>\<open>System = 1\<close> on the host.
\<close>

theorem whitelist_descriptor_overwritten:
  "getOwnPropertyDescriptor exampleHost (Str ''System'') = None
   \<and> fst systemWrittenOnce = Returned True
   \<and> map_of (globalWhitelistPrevDescriptor (fst (snd systemWrittenOnce))) (Str ''System'') = Some None
   \<and> fst systemWrittenTwice = Returned True
   \<and> map_of (globalWhitelistPrevDescriptor (fst (snd systemWrittenTwice))) (Str ''System'')
       = Some (Some (Data (Num 1) True True True))
   \<and> activeSandboxCount (snd (snd systemWrittenTwice)) = 1
   \<and> fst systemRestored = Returned ()
   \<and> getOwnPropertyDescriptor (host (snd (snd systemRestored))) (Str ''System'')
       = Some (Data (Num 1) True True True)"
  by (simp add: systemRestored_def once twice) (simp add: scen)

section \<open>What a new multiplexed sandbox reports for the host's fixed properties\<close>

lemma map_of_map_filter_Str:
  "map_of (List.map_filter (\<lambda>q. map_option (\<lambda>d. (Str q, f q d)) (g q)) xs) (Str p)
     = (if p \<in> set xs then map_option (f p) (g p) else None)"
  by (induction xs) (auto simp add: List.map_filter_simps split: option.splits)

lemma map_of_map_filter_Sym:
  "map_of (List.map_filter (\<lambda>q. map_option (\<lambda>d. (Str q, f q d)) (g q)) xs) (Sym p) = None"
  by (induction xs) (auto simp add: List.map_filter_simps split: option.splits)

lemma string_keys_mem:
  "p \<in> set (List.map_filter (\<lambda>(k, d). case k of Str n \<Rightarrow> Some n | Sym n \<Rightarrow> None) xs)
     \<longleftrightarrow> Str p \<in> fst ` set xs"
  by (induction xs) (auto simp add: List.map_filter_simps split: pkey.splits)

lemma getOwnPropertyNames_mem:
  "p \<in> set (getOwnPropertyNames obj) \<longleftrightarrow> Str p \<in> fst ` set (own obj)"
  by (simp add: getOwnPropertyNames_def string_keys_mem)

lemma nonConfigurableNames_mem:
  assumes "getOwnPropertyDescriptor obj (Str p) = Some d"
  shows "p \<in> set (nonConfigurableNames obj) \<longleftrightarrow> \<not> configurable d"
proof -
  have "(Str p, d) \<in> set (own obj)"
    using assms by (simp add: getOwnPropertyDescriptor_def map_of_SomeD)
  then have "Str p \<in> fst ` set (own obj)"
    by (rule image_eqI [rotated]) simp
  then show ?thesis
    using assms by (simp add: nonConfigurableNames_def getOwnPropertyNames_mem)
qed

lemma createFakeWindow_Str:
  "getOwnPropertyDescriptor (fst (createFakeWindow E obj speedy)) (Str p)
     = (case getOwnPropertyDescriptor obj (Str p) of
          None \<Rightarrow> None
        | Some d \<Rightarrow> if configurable d then None else Some (fakeDescriptor E speedy p d))"
proof (cases "getOwnPropertyDescriptor obj (Str p)")
  case None
  then show ?thesis
    by (simp add: createFakeWindow_def map_of_map_filter_Str getOwnPropertyDescriptor_def [of "\<lparr>own = _, inherited = _\<rparr>"])
next
  case (Some d)
  then show ?thesis
    by (simp add: createFakeWindow_def map_of_map_filter_Str nonConfigurableNames_mem getOwnPropertyDescriptor_def [of "\<lparr>own = _, inherited = _\<rparr>"])
qed

lemma createFakeWindow_Sym:
  "getOwnPropertyDescriptor (fst (createFakeWindow E obj speedy)) (Sym p) = None"
  by (simp add: createFakeWindow_def map_of_map_filter_Sym getOwnPropertyDescriptor_def [of "\<lparr>own = _, inherited = _\<rparr>"])


text \<open>
  C5, as the code has it. Let a sandbox be constructed over a host that has the own
  property \<open>p\<close> (a string key) with a non-configurable descriptor \<open>d\<close>. Asked through
  the new proxy, \<^verbatim>\<open>getOwnPropertyDescriptor\<close> reports the copy \<open>fakeDescriptor\<close> made.
  For every name but the self-references (\<^verbatim>\<open>top\<close>, \<^verbatim>\<open>parent\<close>, \<^verbatim>\<open>self\<close>, \<^verbatim>\<open>window\<close>;
  \<^verbatim>\<open>document\<close> in speedy mode; \<^verbatim>\<open>mockTop\<close> and \<^verbatim>\<open>mockSafariTop\<close> under test) the copy is
  \<open>d\<close> itself: not configurable, with the host's value (or accessor functions). For
  the self-references the copy is \<open>d\<close> made configurable, and writable if it is a data
  descriptor; value, accessor functions and enumerability are those of \<open>d\<close>. A property
  under a symbol key \<open>q\<close> is not copied: the trap reports the host's descriptor made
  configurable.
\<close>

theorem nonconfigurable_fidelity:
  assumes "ProxySandbox E nm speedy proxyRef hasOwnRef W = (S, W')"
    and "getOwnPropertyDescriptor (host W) (Str p) = Some d"
    and "\<not> configurable d"
  shows "fst (proxy_getOwnPropertyDescriptor S (Str p) W')
           = Returned (Some (fakeDescriptor E speedy p d))
       \<and> (\<not> isSelfReference E speedy p \<longrightarrow> fakeDescriptor E speedy p d = d)
       \<and> (isSelfReference E speedy p \<longrightarrow>
            fakeDescriptor E speedy p d
              = (case d of Data v w e c \<Rightarrow> Data v True e True
                 | Accessor g s e c \<Rightarrow> Accessor g s e True))
       \<and> (getOwnPropertyDescriptor (host W) (Sym q) = Some dq \<longrightarrow>
            fst (proxy_getOwnPropertyDescriptor S (Sym q) W')
              = Returned (Some (case dq of Data v w e c \<Rightarrow> Data v w e True
                                | Accessor g s e c \<Rightarrow> Accessor g s e True)))"
proof -
  have fw: "fakeWindow S = fst (createFakeWindow E (host W) speedy)"
    and hw: "host W' = host W"
    using assms(1) by (auto simp add: ProxySandbox_def split: prod.splits)
  have "getOwnPropertyDescriptor (fakeWindow S) (Str p) = Some (fakeDescriptor E speedy p d)"
    by (simp add: fw createFakeWindow_Str assms(2,3))
  then have one: "fst (proxy_getOwnPropertyDescriptor S (Str p) W')
           = Returned (Some (fakeDescriptor E speedy p d))"
    by (simp add: proxy_getOwnPropertyDescriptor_def hasOwnProperty_def)
  have two: "\<not> isSelfReference E speedy p \<longrightarrow> fakeDescriptor E speedy p d = d"
    by (cases d) simp_all
  have three: "isSelfReference E speedy p \<longrightarrow>
            fakeDescriptor E speedy p d
              = (case d of Data v w e c \<Rightarrow> Data v True e True
                 | Accessor g s e c \<Rightarrow> Accessor g s e True)"
    by (cases d) simp_all
  have "getOwnPropertyDescriptor (fakeWindow S) (Sym q) = None"
    by (simp add: fw createFakeWindow_Sym)
  then have four: "getOwnPropertyDescriptor (host W) (Sym q) = Some dq \<longrightarrow>
            fst (proxy_getOwnPropertyDescriptor S (Sym q) W')
              = Returned (Some (case dq of Data v w e c \<Rightarrow> Data v w e True
                                | Accessor g s e c \<Rightarrow> Accessor g s e True))"
    by (cases dq) (simp_all add: proxy_getOwnPropertyDescriptor_def hasOwnProperty_def hw)
  from one two three four show ?thesis by blast
qed

theorem nonconfigurable_fidelity_witness:
  "ProxySandbox (exampleEnv Production) ''appA'' False (Ref 50) (Ref 51) exampleWorld
     = (exampleA, exampleWorld\<lparr>activeSandboxCount := 1\<rparr>)
   \<and> getOwnPropertyDescriptor (host exampleWorld) (Str ''NaN'') = Some (Data (Num 0) False False False)
   \<and> \<not> configurable (Data (Num 0) False False False)
   \<and> \<not> isSelfReference (exampleEnv Production) False ''NaN''
   \<and> fst (proxy_getOwnPropertyDescriptor exampleA (Str ''NaN'') (exampleWorld\<lparr>activeSandboxCount := 1\<rparr>))
       = Returned (Some (Data (Num 0) False False False))
   \<and> getOwnPropertyDescriptor (host exampleWorld) (Str ''window'') = Some (Data (Ref 0) False True False)
   \<and> isSelfReference (exampleEnv Production) False ''window''
   \<and> fst (proxy_getOwnPropertyDescriptor exampleA (Str ''window'') (exampleWorld\<lparr>activeSandboxCount := 1\<rparr>))
       = Returned (Some (Data (Ref 0) True True True))
   \<and> getOwnPropertyDescriptor (host exampleWorld) (Sym ''tag'') = Some (Data (Num 5) False False False)
   \<and> fst (proxy_getOwnPropertyDescriptor exampleA (Sym ''tag'') (exampleWorld\<lparr>activeSandboxCount := 1\<rparr>))
       = Returned (Some (Data (Num 5) False False True))"
proof -
  have d: "getOwnPropertyDescriptor (host exampleWorld) (Str ''NaN'') = Some (Data (Num 0) False False False)"
    by (simp add: example_defs object_defs)
  have c: "\<not> configurable (Data (Num 0) False False False)" by simp
  have n: "\<not> isSelfReference (exampleEnv Production) False ''NaN''"
    by (simp add: isSelfReference_def inTest_def exampleEnv_def)
  have d': "getOwnPropertyDescriptor (host exampleWorld) (Str ''window'') = Some (Data (Ref 0) False True False)"
    by (simp add: example_defs object_defs)
  have c': "\<not> configurable (Data (Ref 0) False True False)" by simp
  have n': "isSelfReference (exampleEnv Production) False ''window''"
    by (simp add: isSelfReference_def)
  have s: "getOwnPropertyDescriptor (host exampleWorld) (Sym ''tag'') = Some (Data (Num 5) False False False)"
    by (simp add: example_defs object_defs)
  show ?thesis
    using nonconfigurable_fidelity [OF exampleA_constructed [of Production] d c,
            of "''tag''" "Data (Num 5) False False False"]
      nonconfigurable_fidelity [OF exampleA_constructed [of Production] d' c']
      exampleA_constructed [of Production] d n d' n' s
    by simp
qed

text \<open>
  C5, as the claim states it, fails for \<^verbatim>\<open>window\<close>: the host's property is neither
  configurable nor writable, and the new sandbox reports it as both. It fails for a key
  that is a symbol as well: the host's property is not configurable, and the sandbox
  reports it as configurable.
\<close>

theorem self_reference_reported_configurable:
  "getOwnPropertyDescriptor (host exampleWorld) (Str ''window'') = Some (Data (Ref 0) False True False)
   \<and> ProxySandbox (exampleEnv Production) ''appA'' False (Ref 50) (Ref 51) exampleWorld
       = (exampleA, exampleWorld\<lparr>activeSandboxCount := 1\<rparr>)
   \<and> fst (proxy_getOwnPropertyDescriptor exampleA (Str ''window'') (exampleWorld\<lparr>activeSandboxCount := 1\<rparr>))
       = Returned (Some (Data (Ref 0) True True True))
   \<and> getOwnPropertyDescriptor (host exampleWorld) (Sym ''tag'') = Some (Data (Num 5) False False False)
   \<and> fst (proxy_getOwnPropertyDescriptor exampleA (Sym ''tag'') (exampleWorld\<lparr>activeSandboxCount := 1\<rparr>))
       = Returned (Some (Data (Num 5) False False True))"
  by (simp add: exampleA_constructed)
     (simp add: proxy_getOwnPropertyDescriptor_def example_defs object_defs)

section \<open>Isolation between multiplexed sandboxes\<close>

lemma getTargetValue_fst_cong:
  assumes "host W = host W'" "functionBoundedValueMap W = functionBoundedValueMap W'"
    "functionObjects W = functionObjects W'" "nextRef W = nextRef W'"
  shows "fst (getTargetValue E t v W) = fst (getTargetValue E t v W')"
  unfolding getTargetValue_def Let_def assms
  by (simp split: prod.splits outcome.splits)

lemma genericGet_fst_cong:
  assumes "host W = host W'" "hostRef W = hostRef W'"
    "functionBoundedValueMap W = functionBoundedValueMap W'"
    "functionObjects W = functionObjects W'" "nextRef W = nextRef W'"
  shows "fst (genericGet E S p W) = fst (genericGet E S p W')"
  using getTargetValue_fst_cong [OF assms(1,3,4,5), of E]
  unfolding genericGet_def Let_def assms(1,2)
  by (simp split: outcome.splits)

lemma fst_if: "fst (if c then a else b) = (if c then fst a else fst b)"
  by simp

text \<open>What the get trap returns, read off its definition.\<close>

lemma proxy_get_fst:
  "fst (proxy_get E S p W) =
     (if p = Sym ''Symbol.unscopables'' then Returned (unscopablesRef E)
      else if p = Str ''window'' \<or> p = Str ''self'' then Returned (proxy S)
      else if p = Str ''globalThis'' \<or> (inTest E \<and> p = Str mockGlobalThis)
        then Returned (proxy S)
      else if p = Str ''top'' \<or> p = Str ''parent''
              \<or> (inTest E \<and> (p = Str mockTop \<or> p = Str mockSafariTop)) then
        (case js_get E OnHost (host W) (host W) (Str ''parent'') of
           Returned parent \<Rightarrow>
             if parent = Ref (hostRef W) then Returned (proxy S)
             else js_get E OnHost (host W) (host W) p
         | Threw err \<Rightarrow> Threw err)
      else if p = Str ''hasOwnProperty'' then Returned (hasOwnPropertyFn S)
      else if p = Str ''document'' then Returned (document S)
      else if p = Str ''eval'' then Returned (evalFn E)
      else if whitelistGuard E p then js_get E OnHost (host W) (host W) p
      else fst (genericGet E S p (registerRunningApp S W)))"
  unfolding proxy_get_def Let_def
  by (simp only: fst_if fst_conv registerRunningApp_fields outcome.case_distrib [of fst]
        if_distrib [of fst] cong: outcome.case_cong if_cong)

lemma proxy_get_fst_cong:
  assumes "host W = host W'" "hostRef W = hostRef W'"
    "functionBoundedValueMap W = functionBoundedValueMap W'"
    "functionObjects W = functionObjects W'" "nextRef W = nextRef W'"
  shows "fst (proxy_get E S p W) = fst (proxy_get E S p W')"
proof -
  have "fst (genericGet E S p (registerRunningApp S W))
        = fst (genericGet E S p (registerRunningApp S W'))"
    by (rule genericGet_fst_cong) (simp_all add: registerRunningApp_fields assms)
  then show ?thesis
    by (simp only: proxy_get_fst assms(1,2))
qed

lemma assignment_Call:
  "assignment obj p v = Call s \<Longrightarrow> isAccessorProperty obj p"
  by (auto simp add: assignment_def isAccessorProperty_def findProperty_def
        split: option.splits desc.splits if_splits)

lemma js_set_on_host:
  "\<not> isAccessorProperty obj p \<Longrightarrow> snd (snd (js_set_on E obj p v g)) = g"
  using assignment_Call [of obj p v]
  by (cases "assignment obj p v") (auto simp add: js_set_on_def)

lemma proxy_set_world:
  assumes "\<not> inWhiteList E p" "\<not> isAccessorProperty (fakeWindow S) p"
  shows "snd (snd (proxy_set E S p v W)) = (if sandboxRunning S then registerRunningApp S W else W)"
proof -
  define X where "X = registerRunningApp S W"
  obtain r t g where j: "js_set_on E (fakeWindow S) p v (host X) = (r, t, g)"
    by (cases "js_set_on E (fakeWindow S) p v (host X)")
  have g: "g = host X"
    using js_set_on_host [OF assms(2), of E v "host X"] j by simp
  show ?thesis
    using assms(1) unfolding proxy_set_def Let_def X_def [symmetric]
    by (cases r) (simp_all add: j g split: outcome.splits option.splits)
qed

text \<open>
  A write of a key outside the whitelist that does not reach a setter (the key is not an
  accessor property of the writing sandbox's fake window, own or inherited) leaves the
  host global object as it was, and a read of the key through another sandbox gives
  afterwards what it gave before.
\<close>

lemma write_isolated_without_setter:
  assumes "\<not> inWhiteList E K" "\<not> isAccessorProperty (fakeWindow A) K"
  shows "host (snd (snd (proxy_set E A K v W))) = host W
       \<and> fst (proxy_get E B K (snd (snd (proxy_set E A K v W)))) = fst (proxy_get E B K W)"
proof
  show "host (snd (snd (proxy_set E A K v W))) = host W"
    by (simp add: proxy_set_world [OF assms] registerRunningApp_fields)
  show "fst (proxy_get E B K (snd (snd (proxy_set E A K v W)))) = fst (proxy_get E B K W)"
    by (rule proxy_get_fst_cong)
       (simp_all add: proxy_set_world [OF assms] registerRunningApp_fields)
qed

lemma accessor_read_before:
  "fst (proxy_get (exampleEnv Production) accessorB (Str ''shared'') accessorWorld2)
     = Returned (Num 1)"
  by (simp add: proxy_get_fst genericGet_def registerRunningApp_fields getTargetValue_def
        whitelist_defs useNativeWindowForBindingsProps_def inTest_def Let_def stored_def
        accessorB_def accessorWorld2_def accessorHost_def accessorFakeWindow_def
        example_defs object_defs)

lemma sharedWritten_eval:
  "sharedWritten =
     (Returned True,
      accessorA\<lparr>latestSetProp := Some (Str ''shared''), updatedValueSet := {Str ''shared''}\<rparr>,
      accessorWorld2
        \<lparr>host := accessorHost
           \<lparr>own := AList.update (Str ''store'') (Data (Num 9) True True True) (own accessorHost)\<rparr>,
         currentRunningApp := Some (''appA'', Ref 50), clearScheduled := True\<rparr>)"
  by (simp add: sharedWritten_def proxy_set_def recorded_def registerRunningApp_def nextTask_def
        setCurrentRunningApp_def getCurrentRunningApp_def whitelist_defs Let_def
        accessorA_def accessorWorld2_def accessorHost_def accessorFakeWindow_def
        example_defs object_defs)

text \<open>
  C1. The claim holds for every write that does not reach a setter
  (\<open>write_isolated_without_setter\<close>). The host property \<^verbatim>\<open>shared\<close> is a non-configurable
  accessor; \<^verbatim>\<open>createFakeWindow\<close> has copied its getter and setter onto the fake window of
  each sandbox. \<^verbatim>\<open>shared\<close> is outside the whitelist. The write \<^verbatim>\<open>shared = 9\<close> through the
  proxy of \<open>appA\<close> finds the key on the fake window and runs \<^verbatim>\<open>target[p] = value\<close>, which
  calls the host's setter; the trap returns \<^verbatim>\<open>true\<close> (and the assignment through the Proxy
  returns). The read of \<^verbatim>\<open>shared\<close> through the proxy of \<open>appB\<close>, which goes to the host for
  a key with a getter, gave 1 before the write and gives 9 after it; so does a read of
  \<^verbatim>\<open>shared\<close> on the host itself.
\<close>

theorem setter_write_escapes:
  "accessorApps = (accessorA, accessorB, accessorWorld2)
   \<and> sandboxRunning accessorA \<and> sandboxRunning accessorB
   \<and> \<not> inWhiteList (exampleEnv Production) (Str ''shared'')
   \<and> getOwnPropertyDescriptor (host accessorWorld2) (Str ''shared'')
       = Some (Accessor (Ref 30) (Ref 31) True False)
   \<and> getOwnPropertyDescriptor (fakeWindow accessorA) (Str ''shared'')
       = Some (Accessor (Ref 30) (Ref 31) True False)
   \<and> js_get (exampleEnv Production) OnHost (host accessorWorld2) (host accessorWorld2) (Str ''shared'')
       = Returned (Num 1)
   \<and> fst (proxy_get (exampleEnv Production) accessorB (Str ''shared'') accessorWorld2)
       = Returned (Num 1)
   \<and> fst sharedWritten = Returned True
   \<and> fst (proxy_assign (exampleEnv Production) accessorA (Str ''shared'') (Num 9) accessorWorld2)
       = Returned ()
   \<and> js_get (exampleEnv Production) OnHost (host (snd (snd sharedWritten)))
        (host (snd (snd sharedWritten))) (Str ''shared'')
       = Returned (Num 9)
   \<and> fst (proxy_get (exampleEnv Production) accessorB (Str ''shared'') (snd (snd sharedWritten)))
       = Returned (Num 9)"
proof -
  have after: "fst (proxy_get (exampleEnv Production) accessorB (Str ''shared'') (snd (snd sharedWritten)))
       = Returned (Num 9)"
    by (simp add: sharedWritten_eval)
       (simp add: proxy_get_fst genericGet_def registerRunningApp_fields getTargetValue_def
        whitelist_defs useNativeWindowForBindingsProps_def inTest_def Let_def stored_def
        accessorB_def accessorWorld2_def accessorHost_def accessorFakeWindow_def
        example_defs object_defs)
  have assign: "fst (proxy_assign (exampleEnv Production) accessorA (Str ''shared'') (Num 9) accessorWorld2)
       = Returned ()"
    using sharedWritten_eval
    by (simp add: proxy_assign_def sharedWritten_def)
       (simp add: setInvariantBroken_def accessorA_def accessorFakeWindow_def example_defs object_defs)
  have host: "js_get (exampleEnv Production) OnHost (host accessorWorld2) (host accessorWorld2) (Str ''shared'')
       = Returned (Num 1)"
     "js_get (exampleEnv Production) OnHost (host (snd (snd sharedWritten)))
        (host (snd (snd sharedWritten))) (Str ''shared'') = Returned (Num 9)"
    by (simp_all add: sharedWritten_eval)
       (simp_all add: stored_def accessorWorld2_def accessorHost_def example_defs object_defs)
  have rest: "sandboxRunning accessorA \<and> sandboxRunning accessorB
   \<and> \<not> inWhiteList (exampleEnv Production) (Str ''shared'')
   \<and> getOwnPropertyDescriptor (host accessorWorld2) (Str ''shared'')
       = Some (Accessor (Ref 30) (Ref 31) True False)
   \<and> getOwnPropertyDescriptor (fakeWindow accessorA) (Str ''shared'')
       = Some (Accessor (Ref 30) (Ref 31) True False)"
    by (simp add: whitelist_defs accessorA_def accessorB_def accessorWorld2_def accessorHost_def
          accessorFakeWindow_def example_defs object_defs)
  have written: "fst sharedWritten = Returned True"
    by (simp add: sharedWritten_eval)
  show ?thesis
    using accessorApps_eval accessor_read_before written after assign host rest
    by simp
qed

section \<open>The native value binding layer\<close>

lemma getTargetValue_passthrough:
  "\<not> (isCallable E v \<and> \<not> isBoundedFunction E v \<and> \<not> isConstructable E v) \<Longrightarrow>
   getTargetValue E t v W = (Returned v, W)"
  unfolding getTargetValue_def by (simp only: if_False)

lemma getTargetValue_hit:
  assumes "isCallable E v \<and> \<not> isBoundedFunction E v \<and> \<not> isConstructable E v"
    and "functionBoundedValueMap W v = Some r" "truthy r"
  shows "getTargetValue E t v W = (Returned r, W)"
  using assms by (simp add: getTargetValue_def orElse_def)

text \<open>
  On a cache miss, an application that returns has made a new function, has written it
  into the cache under the value, and any later application (whatever the receiver)
  returns that very function and writes nothing.
\<close>

lemma getTargetValue_miss:
  assumes el: "isCallable E v \<and> \<not> isBoundedFunction E v \<and> \<not> isConstructable E v"
    and miss: "\<not> truthy (orElse (functionBoundedValueMap W v) Undefined)"
    and ret: "getTargetValue E t1 v W = (Returned r, W')"
  shows "r = Ref (nextRef W) \<and> functionBoundedValueMap W' v = Some r
       \<and> boundFunctions W' (nextRef W) = Some (v, t1)
       \<and> getTargetValue E t2 v W' = (Returned r, W')"
proof -
  have "r = Ref (nextRef W) \<and> functionBoundedValueMap W' v = Some r
       \<and> boundFunctions W' (nextRef W) = Some (v, t1)"
    using ret el miss unfolding getTargetValue_def Let_def
    by (auto split: prod.splits outcome.splits)
  moreover from this have "getTargetValue E t2 v W' = (Returned r, W')"
    using el by (intro getTargetValue_hit) simp_all
  ultimately show ?thesis by simp
qed

lemmas binding_defs =
  getTargetValue_def forInKeys_def bind_def copyField_def copyPrototype_def
  patchToString_def toStringAttributes_def getOwnPropertyNames_def List.map_filter_simps
  plainFunction_def namedFunction_def exampleFunctionPrototype_def

lemma atob_bound:
  "getTargetValue (exampleEnv Production) (Ref 0) (Ref 10) exampleWorld2
   = (Returned (Ref 100),
      exampleWorld2
        \<lparr>functionObjects := (functionObjects exampleWorld2)
           (Ref 100 :=
              \<lparr>own = [(Str ''length'', Data (Num 0) False False True),
                      (Str ''name'', Data (Text ''bound'') False False True),
                      (Str ''toString'', Data (Ref 101) True False True)],
               inherited = own exampleFunctionPrototype\<rparr>),
         boundFunctions := [100 \<mapsto> (Ref 10, Ref 0)],
         functionBoundedValueMap := [Ref 10 \<mapsto> Ref 100],
         nextRef := 102\<rparr>)"
  by (simp add: binding_defs example_defs object_defs Let_def)

text \<open>
  C7. The second half of the claim holds (\<open>getTargetValue_passthrough\<close>), and so does
  the first whenever the first application returns (\<open>getTargetValue_miss\<close>,
  \<open>getTargetValue_hit\<close>; for the native \<^verbatim>\<open>atob\<close> both applications return the bound
  function made by the first). But before the cache is written, the loop
  \<^verbatim>\<open>for (const key in value) boundValue[key] = value[key]\<close> assigns every enumerable
  property of the function onto the bound function, in strict code. The function
  \<^verbatim>\<open>greet\<close> is callable, not bound, not constructable, and its \<^verbatim>\<open>name\<close> has been made
  enumerable; the bound function's own \<^verbatim>\<open>name\<close> is not writable, so the assignment
  throws a \<^verbatim>\<open>TypeError\<close>: the first application throws, leaves the cache empty, and the
  second application throws again. So does each read of \<^verbatim>\<open>greet\<close> through a sandbox's
  proxy.
\<close>

theorem copy_loop_throws:
  "isCallable (exampleEnv Production) (Ref 13)
   \<and> \<not> isBoundedFunction (exampleEnv Production) (Ref 13)
   \<and> \<not> isConstructable (exampleEnv Production) (Ref 13)
   \<and> getOwnPropertyDescriptor (functionObjects exampleWorld2 (Ref 13)) (Str ''name'')
       = Some (Data (Text ''greet'') False True True)
   \<and> forInKeys (functionObjects exampleWorld2 (Ref 13)) = [''name'']
   \<and> getOwnPropertyDescriptor
        (bind (exampleEnv Production) (Ref 13) (functionObjects exampleWorld2 (Ref 13))) (Str ''name'')
       = Some (Data (Text ''bound'') False False True)
   \<and> functionBoundedValueMap exampleWorld2 (Ref 13) = None
   \<and> getTargetValue (exampleEnv Production) (Ref 0) (Ref 13) exampleWorld2
       = (Threw TypeError, exampleWorld2)
   \<and> getTargetValue (exampleEnv Production) (Ref 0) (Ref 13)
        (snd (getTargetValue (exampleEnv Production) (Ref 0) (Ref 13) exampleWorld2))
       = (Threw TypeError, exampleWorld2)
   \<and> getOwnPropertyDescriptor (host accessorWorld2) (Str ''greet'')
       = Some (Data (Ref 13) True True True)
   \<and> fst (proxy_get (exampleEnv Production) accessorA (Str ''greet'') accessorWorld2)
       = Threw TypeError
   \<and> fst (proxy_get (exampleEnv Production) accessorA (Str ''greet'')
            (snd (proxy_get (exampleEnv Production) accessorA (Str ''greet'') accessorWorld2)))
       = Threw TypeError"
proof -
  have first: "getTargetValue (exampleEnv Production) (Ref 0) (Ref 13) exampleWorld2
       = (Threw TypeError, exampleWorld2)"
    by (simp add: binding_defs example_defs object_defs Let_def)
  have read: "proxy_get (exampleEnv Production) accessorA (Str ''greet'') accessorWorld2
       = (Threw TypeError,
          accessorWorld2\<lparr>currentRunningApp := Some (''appA'', Ref 50), clearScheduled := True\<rparr>)"
    by (simp add: proxy_get_def genericGet_def registerRunningApp_def nextTask_def
          setCurrentRunningApp_def getCurrentRunningApp_def
          whitelist_defs useNativeWindowForBindingsProps_def inTest_def Let_def
          mockGlobalThis_def mockTop_def mockSafariTop_def
          accessorA_def accessorWorld2_def accessorHost_def accessorFakeWindow_def
          binding_defs example_defs object_defs)
  have again: "fst (proxy_get (exampleEnv Production) accessorA (Str ''greet'')
            (accessorWorld2\<lparr>currentRunningApp := Some (''appA'', Ref 50), clearScheduled := True\<rparr>))
       = Threw TypeError"
    by (simp add: proxy_get_def genericGet_def registerRunningApp_def nextTask_def
          setCurrentRunningApp_def getCurrentRunningApp_def
          whitelist_defs useNativeWindowForBindingsProps_def inTest_def Let_def
          mockGlobalThis_def mockTop_def mockSafariTop_def
          accessorA_def accessorWorld2_def accessorHost_def accessorFakeWindow_def
          binding_defs example_defs object_defs)
  have rest: "isCallable (exampleEnv Production) (Ref 13)
   \<and> \<not> isBoundedFunction (exampleEnv Production) (Ref 13)
   \<and> \<not> isConstructable (exampleEnv Production) (Ref 13)
   \<and> getOwnPropertyDescriptor (functionObjects exampleWorld2 (Ref 13)) (Str ''name'')
       = Some (Data (Text ''greet'') False True True)
   \<and> forInKeys (functionObjects exampleWorld2 (Ref 13)) = [''name'']
   \<and> getOwnPropertyDescriptor
        (bind (exampleEnv Production) (Ref 13) (functionObjects exampleWorld2 (Ref 13))) (Str ''name'')
       = Some (Data (Text ''bound'') False False True)
   \<and> functionBoundedValueMap exampleWorld2 (Ref 13) = None
   \<and> getOwnPropertyDescriptor (host accessorWorld2) (Str ''greet'')
       = Some (Data (Ref 13) True True True)"
    by (simp add: binding_defs accessorWorld2_def accessorHost_def example_defs object_defs)
  show ?thesis
    using first read again rest by simp
qed

text \<open>
  For the native function \<^verbatim>\<open>atob\<close>, which has no enumerable property, the first
  application makes the bound function 100 and caches it; the second returns it.
\<close>

lemma atob_bound_once:
  "fst (getTargetValue (exampleEnv Production) (Ref 0) (Ref 10) exampleWorld2) = Returned (Ref 100)
   \<and> functionBoundedValueMap
        (snd (getTargetValue (exampleEnv Production) (Ref 0) (Ref 10) exampleWorld2)) (Ref 10)
       = Some (Ref 100)
   \<and> getTargetValue (exampleEnv Production) (Ref 1) (Ref 10)
        (snd (getTargetValue (exampleEnv Production) (Ref 0) (Ref 10) exampleWorld2))
       = (Returned (Ref 100),
          snd (getTargetValue (exampleEnv Production) (Ref 0) (Ref 10) exampleWorld2))"
proof -
  have el: "isCallable (exampleEnv Production) (Ref 10)
      \<and> \<not> isBoundedFunction (exampleEnv Production) (Ref 10)
      \<and> \<not> isConstructable (exampleEnv Production) (Ref 10)"
    by (simp add: exampleEnv_def)
  have miss: "\<not> truthy (orElse (functionBoundedValueMap exampleWorld2 (Ref 10)) Undefined)"
    by (simp add: example_defs orElse_def)
  define W' where "W' = snd (getTargetValue (exampleEnv Production) (Ref 0) (Ref 10) exampleWorld2)"
  have ret: "getTargetValue (exampleEnv Production) (Ref 0) (Ref 10) exampleWorld2
      = (Returned (Ref 100), W')"
    by (simp add: W'_def atob_bound)
  from getTargetValue_miss [OF el miss ret, of "Ref 1"]
  have "functionBoundedValueMap W' (Ref 10) = Some (Ref 100)
      \<and> getTargetValue (exampleEnv Production) (Ref 1) (Ref 10) W' = (Returned (Ref 100), W')"
    by simp
  then show ?thesis
    unfolding W'_def [symmetric] by (simp add: ret)
qed

section \<open>The diffing sandbox: writes, then deactivation and reactivation\<close>

lemmas legacy_defs =
  exampleWritten_def exampleDeactivated_def exampleReactivated_def
  legacy_set_def setTrap_def legacy_inactive_def legacy_active_def setWindowProp_def
  LegacySandbox_def isPropConfigurable_def isSymbol_def



subsection \<open>Assignments on the host\<close>

lemma assignment_plain:
  assumes "\<not> isAccessorProperty g K"
  shows "assignment g K v = Refuse
       \<or> (\<exists>d. assignment g K v = Store d
              \<and> (case getOwnPropertyDescriptor g K of
                    Some (Data v0 w e c) \<Rightarrow> w \<and> d = Data v True e c
                  | Some (Accessor a b e c) \<Rightarrow> False
                  | None \<Rightarrow> d = Data v True True True))"
  using assms
  by (auto simp add: assignment_def isAccessorProperty_def findProperty_def
        split: option.splits desc.splits if_splits)

lemma js_set_plain:
  assumes "js_set E g K v = (Returned (), g1)" "\<not> isAccessorProperty g K"
  shows "(case getOwnPropertyDescriptor g K of
            Some (Data v0 w e c) \<Rightarrow> w \<and> g1 = g\<lparr>own := AList.update K (Data v True e c) (own g)\<rparr>
          | Some (Accessor a b e c) \<Rightarrow> False
          | None \<Rightarrow> g1 = g\<lparr>own := AList.update K (Data v True True True) (own g)\<rparr>)"
  using assms
  by (auto simp add: js_set_def assignment_def isAccessorProperty_def findProperty_def
        split: option.splits desc.splits if_splits)


subsection \<open>setWindowProp\<close>

text \<open>
  \<^verbatim>\<open>setWindowProp\<close> without \<^verbatim>\<open>toDelete\<close> always returns: it either skips the property or
  redefines it as a writable, configurable data property and assigns it (after the
  redefinition the assignment finds an own writable data property, so no setter runs).
\<close>

lemma setWindowProp_assign_cases:
  "setWindowProp E p v False g = (Returned (), g) \<and> (isSymbol p \<or> \<not> isPropConfigurable g p)
   \<or> (\<exists>e. setWindowProp E p v False g
            = (Returned (), g\<lparr>own := AList.update p (Data v True e True) (own g)\<rparr>)
          \<and> \<not> isSymbol p \<and> isPropConfigurable g p)"
proof (cases "isPropConfigurable g p \<and> \<not> isSymbol p")
  case False
  then show ?thesis by (auto simp add: setWindowProp_def)
next
  case True
  show ?thesis
  proof (cases "getOwnPropertyDescriptor g p")
    case None
    with True have "setWindowProp E p v False g
            = (Returned (), g\<lparr>own := AList.update p (Data v True False True) (own g)\<rparr>)"
      by (simp add: setWindowProp_def js_set_def assignment_def defineProperty_def
        isAccessorAttrs_def isDataAttrs_def orElse_def newProperty_def
        getOwnPropertyDescriptor_def update_conv')
    with True show ?thesis by blast
  next
    case (Some d)
    with True have c: "configurable d" by (simp add: isPropConfigurable_def)
    have "\<exists>e. setWindowProp E p v False g
            = (Returned (), g\<lparr>own := AList.update p (Data v True e True) (own g)\<rparr>)"
    proof (cases d)
      case (Data v0 w e c0)
      with Some True c have "setWindowProp E p v False g
            = (Returned (), g\<lparr>own := AList.update p (Data v True e True) (own g)\<rparr>)"
        by (simp add: setWindowProp_def js_set_def assignment_def defineProperty_def
          isAccessorAttrs_def isDataAttrs_def orElse_def
          getOwnPropertyDescriptor_def update_conv')
      then show ?thesis by blast
    next
      case (Accessor a b e c0)
      with Some True c have "setWindowProp E p v False g
            = (Returned (), g\<lparr>own := AList.update p (Data v True e True) (own g)\<rparr>)"
        by (simp add: setWindowProp_def js_set_def assignment_def defineProperty_def
          isAccessorAttrs_def isDataAttrs_def orElse_def
          getOwnPropertyDescriptor_def update_conv')
      then show ?thesis by blast
    qed
    with True show ?thesis by blast
  qed
qed

lemma setWindowProp_assign_returns:
  "\<exists>g'. setWindowProp E p v False g = (Returned (), g')"
  using setWindowProp_assign_cases [of E p v g] by auto



lemma setWindowProp_other:
  assumes "setWindowProp E p v d g = (Returned (), g')" "K \<noteq> p"
  shows "getOwnPropertyDescriptor g' K = getOwnPropertyDescriptor g K"
proof (cases "v = Undefined \<and> d")
  case True
  with assms show ?thesis
    by (auto simp add: setWindowProp_def step_def js_delete_def getOwnPropertyDescriptor_def
          delete_conv' split: option.splits if_splits)
next
  case False
  then have "setWindowProp E p v d g = setWindowProp E p v False g"
    by (auto simp add: setWindowProp_def)
  with assms setWindowProp_assign_cases [of E p v g] show ?thesis
    by (auto simp add: getOwnPropertyDescriptor_def update_conv')
qed

lemma setWindowProp_fixed:
  assumes "setWindowProp E p v d g = (Returned (), g')"
    and "getOwnPropertyDescriptor g K = Some dK" "\<not> configurable dK"
  shows "getOwnPropertyDescriptor g' K = Some dK"
proof (cases "K = p")
  case False
  with assms setWindowProp_other show ?thesis by simp
next
  case True
  with assms show ?thesis
    by (auto simp add: setWindowProp_def step_def js_delete_def isPropConfigurable_def
          split: option.splits if_splits)
qed

lemma setWindowProp_loose:
  assumes "setWindowProp E p v d g = (Returned (), g')"
    and "isPropConfigurable g K"
  shows "isPropConfigurable g' K"
proof (cases "K = p")
  case False
  with assms setWindowProp_other [of E p v d g g' K] show ?thesis
    by (simp add: isPropConfigurable_def)
next
  case True
  show ?thesis
  proof (cases "v = Undefined \<and> d")
    case True
    with assms \<open>K = p\<close> show ?thesis
      by (auto simp add: setWindowProp_def step_def js_delete_def getOwnPropertyDescriptor_def
          isPropConfigurable_def delete_conv' split: option.splits if_splits)
  next
    case False
    then have "setWindowProp E p v d g = setWindowProp E p v False g"
      by (auto simp add: setWindowProp_def)
    with assms \<open>K = p\<close> setWindowProp_assign_cases [of E p v g] show ?thesis
      by (auto simp add: getOwnPropertyDescriptor_def isPropConfigurable_def update_conv')
  qed
qed


lemma setWindowProp_delete_returns:
  assumes "isPropConfigurable g p"
  shows "\<exists>g'. setWindowProp E p Undefined True g = (Returned (), g')"
  using assms
  by (auto simp add: setWindowProp_def step_def js_delete_def isPropConfigurable_def
        split: option.splits)

subsection \<open>The loops of active and inactive\<close>

lemma forEach_Cons_Returned:
  assumes "forEach f (x # xs) g = (Returned (), g')"
  obtains g1 where "f x g = (Returned (), g1)" "forEach f xs g1 = (Returned (), g')"
proof -
  obtain r g1 where fx: "f x g = (r, g1)" by (cases "f x g")
  with assms have "r = Returned ()" by (cases r) simp_all
  with assms fx that show ?thesis by simp
qed

lemma forEach_append:
  "forEach f (xs @ ys) g =
     (case forEach f xs g of
        (Returned u, g') \<Rightarrow> forEach f ys g'
      | (Threw err, g') \<Rightarrow> (Threw err, g'))"
proof (induction xs arbitrary: g)
  case Nil
  then show ?case by simp
next
  case (Cons x xs)
  obtain r g1 where fx: "f x g = (r, g1)" by (cases "f x g")
  show ?case by (cases r) (simp_all add: fx Cons.IH)
qed

lemma forEach_other:
  assumes "forEach (\<lambda>(p, v). setWindowProp E p (h v) d) xs g = (Returned (), g')"
    and "K \<notin> fst ` set xs"
  shows "getOwnPropertyDescriptor g' K = getOwnPropertyDescriptor g K"
  using assms
proof (induction xs arbitrary: g)
  case Nil
  then show ?case by simp
next
  case (Cons x xs)
  obtain p v where x: "x = (p, v)" by (cases x)
  from Cons.prems(1) obtain g1 where
    one: "setWindowProp E p (h v) d g = (Returned (), g1)"
    and rest: "forEach (\<lambda>(p, v). setWindowProp E p (h v) d) xs g1 = (Returned (), g')"
    unfolding x by (rule forEach_Cons_Returned) simp
  have "K \<noteq> p" "K \<notin> fst ` set xs" using Cons.prems(2) x by auto
  with Cons.IH [OF rest] setWindowProp_other [OF one] show ?case by simp
qed

lemma forEach_fixed:
  assumes "forEach (\<lambda>(p, v). setWindowProp E p (h v) d) xs g = (Returned (), g')"
    and "getOwnPropertyDescriptor g K = Some dK" "\<not> configurable dK"
  shows "getOwnPropertyDescriptor g' K = Some dK"
  using assms
proof (induction xs arbitrary: g)
  case Nil
  then show ?case by simp
next
  case (Cons x xs)
  obtain p v where x: "x = (p, v)" by (cases x)
  from Cons.prems(1) obtain g1 where
    one: "setWindowProp E p (h v) d g = (Returned (), g1)"
    and rest: "forEach (\<lambda>(p, v). setWindowProp E p (h v) d) xs g1 = (Returned (), g')"
    unfolding x by (rule forEach_Cons_Returned) simp
  have "getOwnPropertyDescriptor g1 K = Some dK"
    by (rule setWindowProp_fixed [OF one Cons.prems(2,3)])
  with Cons.IH [OF rest] Cons.prems(3) show ?case by simp
qed

lemma forEach_loose:
  assumes "forEach (\<lambda>(p, v). setWindowProp E p (h v) d) xs g = (Returned (), g')"
    and "isPropConfigurable g K"
  shows "isPropConfigurable g' K"
  using assms
proof (induction xs arbitrary: g)
  case Nil
  then show ?case by simp
next
  case (Cons x xs)
  obtain p v where x: "x = (p, v)" by (cases x)
  from Cons.prems(1) obtain g1 where
    one: "setWindowProp E p (h v) d g = (Returned (), g1)"
    and rest: "forEach (\<lambda>(p, v). setWindowProp E p (h v) d) xs g1 = (Returned (), g')"
    unfolding x by (rule forEach_Cons_Returned) simp
  have "isPropConfigurable g1 K"
    by (rule setWindowProp_loose [OF one Cons.prems(2)])
  with Cons.IH [OF rest] show ?case by simp
qed

lemma forEach_assign_returns:
  "\<exists>g'. forEach (\<lambda>(p, v). setWindowProp E p v False) xs g = (Returned (), g')"
proof (induction xs arbitrary: g)
  case Nil
  then show ?case by simp
next
  case (Cons x xs)
  obtain p v where x: "x = (p, v)" by (cases x)
  obtain g1 where one: "setWindowProp E p v False g = (Returned (), g1)"
    using setWindowProp_assign_returns by blast
  with Cons.IH [of g1] show ?case by (simp add: x)
qed

lemma forEach_delete_returns:
  assumes "\<forall>K \<in> fst ` set xs. isPropConfigurable g K"
  shows "\<exists>g'. forEach (\<lambda>(p, v). setWindowProp E p Undefined True) xs g = (Returned (), g')"
  using assms
proof (induction xs arbitrary: g)
  case Nil
  then show ?case by simp
next
  case (Cons x xs)
  obtain p v where x: "x = (p, v)" by (cases x)
  have "isPropConfigurable g p" using Cons.prems x by simp
  then obtain g1 where one: "setWindowProp E p Undefined True g = (Returned (), g1)"
    using setWindowProp_delete_returns by blast
  have "\<forall>K \<in> fst ` set xs. isPropConfigurable g1 K"
    using Cons.prems setWindowProp_loose [OF one] by auto
  from Cons.IH [OF this] one show ?case by (simp add: x)
qed



lemma entry_decomp:
  "distinct (map fst al) \<Longrightarrow> map_of al k = Some v \<Longrightarrow>
   \<exists>xs ys. al = xs @ (k, v) # ys \<and> k \<notin> fst ` set xs \<and> k \<notin> fst ` set ys"
proof (induction al)
  case Nil
  then show ?case by simp
next
  case (Cons a al)
  obtain k' v' where a: "a = (k', v')" by (cases a)
  show ?case
  proof (cases "k' = k")
    case True
    with Cons.prems a have "a # al = [] @ (k, v) # al \<and> k \<notin> fst ` set al"
      by (auto simp add: image_iff)
    then show ?thesis by (metis empty_iff image_empty list.set(1))
  next
    case False
    with Cons a obtain xs ys where
      "al = xs @ (k, v) # ys \<and> k \<notin> fst ` set xs \<and> k \<notin> fst ` set ys"
      by auto
    with False a have "a # al = (a # xs) @ (k, v) # ys
        \<and> k \<notin> fst ` set (a # xs) \<and> k \<notin> fst ` set ys"
      by auto
    then show ?thesis by blast
  qed
qed


subsection \<open>One write through the proxy of a running sandbox\<close>

lemma legacy_set_running:
  assumes "sandboxRunning S" "legacy_set E S K v g = (Returned True, S1, g1)"
  shows "js_set E g K v = (Returned (), g1)"
    and "currentUpdatedPropsValueMap S1 = AList.update K v (currentUpdatedPropsValueMap S)"
    and "\<not> hasOwnProperty g K \<Longrightarrow>
           addedPropsMapInSandbox S1 = AList.update K v (addedPropsMapInSandbox S)"
    and "hasOwnProperty g K \<Longrightarrow> addedPropsMapInSandbox S1 = addedPropsMapInSandbox S"
    and "getOwnPropertyDescriptor g K = Some (Data v0 w e c) \<Longrightarrow>
         map_of (modifiedPropsOriginalValueMapInSandbox S) K = None \<Longrightarrow>
           modifiedPropsOriginalValueMapInSandbox S1
             = AList.update K v0 (modifiedPropsOriginalValueMapInSandbox S)"
    and "\<not> hasOwnProperty g K \<Longrightarrow>
           modifiedPropsOriginalValueMapInSandbox S1 = modifiedPropsOriginalValueMapInSandbox S"
    and "sandboxRunning S1"
  using assms
  by (auto simp add: legacy_set_def setTrap_def Let_def js_get_def findProperty_def
        hasOwnProperty_def split: outcome.splits if_splits prod.splits)

subsection \<open>A write, then inactive\<close>

lemma legacy_set_True:
  "legacy_set E S K v g = (Returned ok, S1, g1) \<Longrightarrow> ok"
  by (auto simp add: legacy_set_def setTrap_def Let_def
        split: outcome.splits if_splits prod.splits)











subsection \<open>A run of writes, then inactive, then active\<close>

lemma plain_write:
  assumes run: "sandboxRunning S"
    and wr: "legacy_set E S K v g = (Returned True, S1, g1)"
    and plain: "\<not> isAccessorProperty g K"
  shows "\<exists>w e c. getOwnPropertyDescriptor g1 K = Some (Data v w e c) \<and> (isPropConfigurable g K \<longrightarrow> c)"
    and "K' \<noteq> K \<Longrightarrow> getOwnPropertyDescriptor g1 K' = getOwnPropertyDescriptor g K'"
    and "inherited g1 = inherited g"
proof -
  have s: "js_set E g K v = (Returned (), g1)" by (rule legacy_set_running(1) [OF run wr])
  note eff = js_set_plain [OF s plain]
  show "\<exists>w e c. getOwnPropertyDescriptor g1 K = Some (Data v w e c) \<and> (isPropConfigurable g K \<longrightarrow> c)"
    using eff
    by (auto simp add: getOwnPropertyDescriptor_def isPropConfigurable_def update_conv'
          split: option.splits desc.splits)
  show "getOwnPropertyDescriptor g1 K' = getOwnPropertyDescriptor g K'" if "K' \<noteq> K"
    using eff that
    by (auto simp add: getOwnPropertyDescriptor_def update_conv' split: option.splits desc.splits)
  show "inherited g1 = inherited g"
    using eff by (auto split: option.splits desc.splits)
qed

lemma plain_write_accessors:
  assumes run: "sandboxRunning S"
    and wr: "legacy_set E S K v g = (Returned True, S1, g1)"
    and plain: "\<not> isAccessorProperty g K"
    and acc: "isAccessorProperty g1 K'"
  shows "isAccessorProperty g K'"
proof (cases "K' = K")
  case True
  with plain_write(1) [OF run wr plain] acc show ?thesis
    by (auto simp add: isAccessorProperty_def findProperty_def)
next
  case False
  have "findProperty g1 K' = findProperty g K'"
    using plain_write(2) [OF run wr plain False] plain_write(3) [OF run wr plain]
    by (simp add: findProperty_def split: option.splits)
  with acc show ?thesis by (simp add: isAccessorProperty_def)
qed

text \<open>
  What holds of a running sandbox and the host after writes that reach no setter: the
  keys of the map of current values are distinct; the host holds each key of that map as
  a data property with the map's value; each key of the map of added properties is
  configurable on the host (or absent from it).
\<close>

lemma writes_settle:
  assumes "sandboxRunning S"
    and "distinct (map fst (currentUpdatedPropsValueMap S))"
    and "\<forall>K v. map_of (currentUpdatedPropsValueMap S) K = Some v \<longrightarrow>
           (\<exists>w e c. getOwnPropertyDescriptor g K = Some (Data v w e c))"
    and "\<forall>K \<in> fst ` set (addedPropsMapInSandbox S). isPropConfigurable g K"
    and "\<forall>K \<in> fst ` set ws. \<not> isAccessorProperty g K"
    and "legacy_writes E ws S g = (Returned True, Sw, gw)"
  shows "sandboxRunning Sw \<and> distinct (map fst (currentUpdatedPropsValueMap Sw))
       \<and> (\<forall>K v. map_of (currentUpdatedPropsValueMap Sw) K = Some v \<longrightarrow>
             (\<exists>w e c. getOwnPropertyDescriptor gw K = Some (Data v w e c)))
       \<and> (\<forall>K \<in> fst ` set (addedPropsMapInSandbox Sw). isPropConfigurable gw K)
       \<and> (\<forall>K. map_of (currentUpdatedPropsValueMap Sw) K
                = (case map_of (rev ws) K of
                     Some v \<Rightarrow> Some v
                   | None \<Rightarrow> map_of (currentUpdatedPropsValueMap S) K))"
  using assms
proof (induction ws arbitrary: S g)
  case Nil
  then show ?case by simp
next
  case (Cons pv ws)
  obtain K v where pv: "pv = (K, v)" by (cases pv)
  obtain r S1 g1 where one: "legacy_set E S K v g = (r, S1, g1)"
    by (cases "legacy_set E S K v g")
  from Cons.prems(6) one pv obtain ok where r: "r = Returned ok"
    by (cases r) simp_all
  with one have "legacy_set E S K v g = (Returned ok, S1, g1)" by simp
  from this legacy_set_True [OF this] have wr: "legacy_set E S K v g = (Returned True, S1, g1)"
    by simp
  from Cons.prems(6) one pv r have rest: "legacy_writes E ws S1 g1 = (Returned True, Sw, gw)"
    by simp
  have plain: "\<not> isAccessorProperty g K" using Cons.prems(5) pv by simp
  note run = Cons.prems(1)
  obtain w e c where d1: "getOwnPropertyDescriptor g1 K = Some (Data v w e c)"
    and c1: "isPropConfigurable g K \<longrightarrow> c"
    using plain_write(1) [OF run wr plain] by blast
  have other: "getOwnPropertyDescriptor g1 K' = getOwnPropertyDescriptor g K'" if "K' \<noteq> K" for K'
    using plain_write(2) [OF run wr plain that] .
  have cur: "currentUpdatedPropsValueMap S1 = AList.update K v (currentUpdatedPropsValueMap S)"
    by (rule legacy_set_running(2) [OF run wr])
  have p1: "sandboxRunning S1" by (rule legacy_set_running(7) [OF run wr])
  have p2: "distinct (map fst (currentUpdatedPropsValueMap S1))"
    using Cons.prems(2) by (simp add: cur distinct_update)
  have p3: "\<forall>K' v'. map_of (currentUpdatedPropsValueMap S1) K' = Some v' \<longrightarrow>
           (\<exists>w e c. getOwnPropertyDescriptor g1 K' = Some (Data v' w e c))"
  proof (intro allI impI)
    fix K' v' assume m: "map_of (currentUpdatedPropsValueMap S1) K' = Some v'"
    show "\<exists>w e c. getOwnPropertyDescriptor g1 K' = Some (Data v' w e c)"
    proof (cases "K' = K")
      case True
      with m cur have "v' = v" by (simp add: update_conv')
      with True d1 show ?thesis by simp
    next
      case False
      with m cur have "map_of (currentUpdatedPropsValueMap S) K' = Some v'"
        by (simp add: update_conv')
      with Cons.prems(3) other [OF False] show ?thesis by simp
    qed
  qed
  have added: "fst ` set (addedPropsMapInSandbox S1) \<subseteq> insert K (fst ` set (addedPropsMapInSandbox S))"
    using legacy_set_running(3,4) [OF run wr]
    by (cases "hasOwnProperty g K") (auto simp add: dom_update)
  have newly: "isPropConfigurable g K" if "K \<notin> fst ` set (addedPropsMapInSandbox S)"
      "K \<in> fst ` set (addedPropsMapInSandbox S1)"
  proof -
    have "\<not> hasOwnProperty g K"
      using legacy_set_running(4) [OF run wr] that by auto
    then show ?thesis
      by (simp add: isPropConfigurable_def hasOwnProperty_def)
  qed
  have p4: "\<forall>K' \<in> fst ` set (addedPropsMapInSandbox S1). isPropConfigurable g1 K'"
  proof
    fix K' assume mem: "K' \<in> fst ` set (addedPropsMapInSandbox S1)"
    show "isPropConfigurable g1 K'"
    proof (cases "K' = K")
      case True
      have "isPropConfigurable g K"
        using newly mem True Cons.prems(4) by blast
      with c1 d1 True show ?thesis by (simp add: isPropConfigurable_def)
    next
      case False
      with mem added have "K' \<in> fst ` set (addedPropsMapInSandbox S)" by auto
      with Cons.prems(4) have "isPropConfigurable g K'" by blast
      with other [OF False] show ?thesis
        by (simp add: isPropConfigurable_def)
    qed
  qed
  have p5: "\<forall>K' \<in> fst ` set ws. \<not> isAccessorProperty g1 K'"
    using Cons.prems(5) plain_write_accessors [OF run wr plain] by auto
  note IH = Cons.IH [OF p1 p2 p3 p4 p5 rest]
  have "map_of (currentUpdatedPropsValueMap Sw) K'
          = (case map_of (rev (pv # ws)) K' of
               Some v \<Rightarrow> Some v
             | None \<Rightarrow> map_of (currentUpdatedPropsValueMap S) K')" for K'
  proof (cases "map_of (rev ws) K'")
    case (Some x)
    with IH show ?thesis by (simp add: map_add_def)
  next
    case None
    with IH have "map_of (currentUpdatedPropsValueMap Sw) K' = map_of (currentUpdatedPropsValueMap S1) K'"
      by simp
    with None show ?thesis
      by (simp add: map_add_def cur update_conv' pv)
  qed
  with IH show ?case by simp
qed

lemma cycle_reapplies:
  assumes dist: "distinct (map fst (currentUpdatedPropsValueMap S))"
    and held: "\<forall>K v. map_of (currentUpdatedPropsValueMap S) K = Some v \<longrightarrow>
           (\<exists>w e c. getOwnPropertyDescriptor g K = Some (Data v w e c))"
    and loose: "\<forall>K \<in> fst ` set (addedPropsMapInSandbox S). isPropConfigurable g K"
  shows "\<exists>gi ga. legacy_inactive E S g = (Returned (), S\<lparr>sandboxRunning := False\<rparr>, gi)
           \<and> legacy_active E (S\<lparr>sandboxRunning := False\<rparr>) gi
               = (Returned (), S\<lparr>sandboxRunning := True\<rparr>, ga)
           \<and> (\<forall>k v. map_of (currentUpdatedPropsValueMap S) (Str k) = Some v \<longrightarrow>
                 (\<exists>w e c. getOwnPropertyDescriptor ga (Str k) = Some (Data v w e c)))"
proof -
  obtain gm where fm: "forEach (\<lambda>(p, v). setWindowProp E p v False)
       (modifiedPropsOriginalValueMapInSandbox S) g = (Returned (), gm)"
    using forEach_assign_returns by blast
  have "\<forall>K \<in> fst ` set (addedPropsMapInSandbox S). isPropConfigurable gm K"
    using loose forEach_loose [of E "\<lambda>v. v" False, OF fm] by blast
  then obtain gi where fa: "forEach (\<lambda>(p, v). setWindowProp E p Undefined True)
       (addedPropsMapInSandbox S) gm = (Returned (), gi)"
    using forEach_delete_returns by blast
  have off: "legacy_inactive E S g = (Returned (), S\<lparr>sandboxRunning := False\<rparr>, gi)"
    by (simp add: legacy_inactive_def fm fa)
  obtain ga where f3: "forEach (\<lambda>(p, v). setWindowProp E p v False)
       (currentUpdatedPropsValueMap S) gi = (Returned (), ga)"
    using forEach_assign_returns by blast
  have on: "legacy_active E (S\<lparr>sandboxRunning := False\<rparr>) gi
               = (Returned (), S\<lparr>sandboxRunning := True\<rparr>, ga)"
    by (simp add: legacy_active_def f3)
  have "\<exists>w e c. getOwnPropertyDescriptor ga (Str k) = Some (Data v w e c)"
    if entry: "map_of (currentUpdatedPropsValueMap S) (Str k) = Some v" for k v
  proof -
    define K where "K = Str k"
    from held entry obtain w e c where d: "getOwnPropertyDescriptor g K = Some (Data v w e c)"
      unfolding K_def by blast
    show ?thesis
    proof (cases c)
      case False
      then have nc: "\<not> configurable (Data v w e c)" by simp
      have "getOwnPropertyDescriptor gm K = Some (Data v w e c)"
        by (rule forEach_fixed [of E "\<lambda>v. v" False, OF fm d nc])
      then have "getOwnPropertyDescriptor gi K = Some (Data v w e c)"
        by (rule forEach_fixed [of E "\<lambda>v. Undefined" True, OF fa _ nc])
      then have "getOwnPropertyDescriptor ga K = Some (Data v w e c)"
        by (rule forEach_fixed [of E "\<lambda>v. v" False, OF f3 _ nc])
      then show ?thesis unfolding K_def by blast
    next
      case True
      with d have "isPropConfigurable g K" by (simp add: isPropConfigurable_def)
      then have "isPropConfigurable gm K"
        by (rule forEach_loose [of E "\<lambda>v. v" False, OF fm])
      then have l2: "isPropConfigurable gi K"
        by (rule forEach_loose [of E "\<lambda>v. Undefined" True, OF fa])
      from entry_decomp [OF dist, of K v] entry obtain xs ys where
        split: "currentUpdatedPropsValueMap S = xs @ (K, v) # ys"
        and kx: "K \<notin> fst ` set xs" and ky: "K \<notin> fst ` set ys"
        unfolding K_def by blast
      obtain g4 where fx: "forEach (\<lambda>(p, v). setWindowProp E p v False) xs gi = (Returned (), g4)"
        using forEach_assign_returns by blast
      obtain g5 where fk: "setWindowProp E K v False g4 = (Returned (), g5)"
        using setWindowProp_assign_returns by blast
      have fy: "forEach (\<lambda>(p, v). setWindowProp E p v False) ys g5 = (Returned (), ga)"
        using f3 fx fk by (simp add: split forEach_append)
      have "isPropConfigurable g4 K"
        by (rule forEach_loose [of E "\<lambda>v. v" False, OF fx l2])
      then obtain e' where "g5 = g4\<lparr>own := AList.update K (Data v True e' True) (own g4)\<rparr>"
        using setWindowProp_assign_cases [of E K v g4] fk by (auto simp add: K_def isSymbol_def)
      then have "getOwnPropertyDescriptor g5 K = Some (Data v True e' True)"
        by (simp add: getOwnPropertyDescriptor_def update_conv')
      then have "getOwnPropertyDescriptor ga K = Some (Data v True e' True)"
        using forEach_other [of E "\<lambda>v. v" False, OF fy ky] by simp
      then show ?thesis unfolding K_def by blast
    qed
  qed
  with off on show ?thesis by blast
qed

text \<open>
  C8, as the code has it. A newly constructed diffing sandbox is running; let a run of
  writes through its proxy return, none of them under a key that is an accessor property
  of the host (own or inherited), so that no write reaches a setter. Then the map of
  current values holds, for each key written, the value written last;
  \<^verbatim>\<open>inactive()\<close> returns; the following \<^verbatim>\<open>active()\<close> returns with the sandbox running;
  and for every string key written, the host then reads the value written last.
\<close>

theorem legacy_reactivation:
  assumes "legacy_writes E ws (LegacySandbox nm pr) g = (Returned True, Sw, gw)"
    and "\<forall>K \<in> fst ` set ws. \<not> isAccessorProperty g K"
  shows "\<exists>Si gi Sa ga.
           legacy_inactive E Sw gw = (Returned (), Si, gi) \<and> \<not> sandboxRunning Si
         \<and> legacy_active E Si gi = (Returned (), Sa, ga) \<and> sandboxRunning Sa
         \<and> (\<forall>K. map_of (currentUpdatedPropsValueMap Sw) K = map_of (rev ws) K)
         \<and> (\<forall>k v. map_of (rev ws) (Str k) = Some v \<longrightarrow>
               js_get E OnHost ga ga (Str k) = Returned v)"
proof -
  have settled: "sandboxRunning Sw \<and> distinct (map fst (currentUpdatedPropsValueMap Sw))
       \<and> (\<forall>K v. map_of (currentUpdatedPropsValueMap Sw) K = Some v \<longrightarrow>
             (\<exists>w e c. getOwnPropertyDescriptor gw K = Some (Data v w e c)))
       \<and> (\<forall>K \<in> fst ` set (addedPropsMapInSandbox Sw). isPropConfigurable gw K)
       \<and> (\<forall>K. map_of (currentUpdatedPropsValueMap Sw) K
                = (case map_of (rev ws) K of
                     Some v \<Rightarrow> Some v
                   | None \<Rightarrow> map_of (currentUpdatedPropsValueMap (LegacySandbox nm pr)) K))"
    by (rule writes_settle [OF _ _ _ _ assms(2) assms(1)]) (simp_all add: LegacySandbox_def)
  then have cur: "map_of (currentUpdatedPropsValueMap Sw) K = map_of (rev ws) K" for K
    by (cases "map_of (rev ws) K") (simp_all add: LegacySandbox_def)
  from settled cycle_reapplies [of Sw gw E] obtain gi ga where
    off: "legacy_inactive E Sw gw = (Returned (), Sw\<lparr>sandboxRunning := False\<rparr>, gi)"
    and on: "legacy_active E (Sw\<lparr>sandboxRunning := False\<rparr>) gi
               = (Returned (), Sw\<lparr>sandboxRunning := True\<rparr>, ga)"
    and re: "\<forall>k v. map_of (currentUpdatedPropsValueMap Sw) (Str k) = Some v \<longrightarrow>
                 (\<exists>w e c. getOwnPropertyDescriptor ga (Str k) = Some (Data v w e c))"
    by blast
  have "js_get E OnHost ga ga (Str k) = Returned v" if "map_of (rev ws) (Str k) = Some v" for k v
  proof -
    from that cur have "map_of (currentUpdatedPropsValueMap Sw) (Str k) = Some v" by simp
    with re obtain w e c where "getOwnPropertyDescriptor ga (Str k) = Some (Data v w e c)"
      by blast
    then show ?thesis by (simp add: js_get_def findProperty_def)
  qed
  with off on cur show ?thesis by auto
qed

lemma written_three:
  "fst (exampleWritten exampleHost
          [(Str ''title'', Num 2), (Str ''fresh'', Num 1), (Str ''counter'', Num 9)])
     = Returned True"
  by (simp add: legacy_defs example_defs object_defs Let_def)

theorem legacy_reactivation_witness:
  "fst (exampleWritten exampleHost
          [(Str ''title'', Num 2), (Str ''fresh'', Num 1), (Str ''counter'', Num 9)])
     = Returned True
   \<and> \<not> isAccessorProperty exampleHost (Str ''title'')
   \<and> \<not> isAccessorProperty exampleHost (Str ''fresh'')
   \<and> \<not> isAccessorProperty exampleHost (Str ''counter'')
   \<and> fst (exampleDeactivated exampleHost
          [(Str ''title'', Num 2), (Str ''fresh'', Num 1), (Str ''counter'', Num 9)])
     = Returned ()
   \<and> js_get (exampleEnv Production) OnHost
        (snd (snd (exampleDeactivated exampleHost
          [(Str ''title'', Num 2), (Str ''fresh'', Num 1), (Str ''counter'', Num 9)])))
        (snd (snd (exampleDeactivated exampleHost
          [(Str ''title'', Num 2), (Str ''fresh'', Num 1), (Str ''counter'', Num 9)])))
        (Str ''title'')
     = Returned (Text ''home'')
   \<and> \<not> hasOwnProperty
        (snd (snd (exampleDeactivated exampleHost
          [(Str ''title'', Num 2), (Str ''fresh'', Num 1), (Str ''counter'', Num 9)])))
        (Str ''fresh'')
   \<and> fst (exampleReactivated exampleHost
          [(Str ''title'', Num 2), (Str ''fresh'', Num 1), (Str ''counter'', Num 9)])
     = Returned ()
   \<and> js_get (exampleEnv Production) OnHost
        (snd (snd (exampleReactivated exampleHost
          [(Str ''title'', Num 2), (Str ''fresh'', Num 1), (Str ''counter'', Num 9)])))
        (snd (snd (exampleReactivated exampleHost
          [(Str ''title'', Num 2), (Str ''fresh'', Num 1), (Str ''counter'', Num 9)])))
        (Str ''title'')
     = Returned (Num 2)
   \<and> js_get (exampleEnv Production) OnHost
        (snd (snd (exampleReactivated exampleHost
          [(Str ''title'', Num 2), (Str ''fresh'', Num 1), (Str ''counter'', Num 9)])))
        (snd (snd (exampleReactivated exampleHost
          [(Str ''title'', Num 2), (Str ''fresh'', Num 1), (Str ''counter'', Num 9)])))
        (Str ''fresh'')
     = Returned (Num 1)
   \<and> js_get (exampleEnv Production) OnHost
        (snd (snd (exampleReactivated exampleHost
          [(Str ''title'', Num 2), (Str ''fresh'', Num 1), (Str ''counter'', Num 9)])))
        (snd (snd (exampleReactivated exampleHost
          [(Str ''title'', Num 2), (Str ''fresh'', Num 1), (Str ''counter'', Num 9)])))
        (Str ''counter'')
     = Returned (Num 9)"
proof -
  define ws where "ws = [(Str ''title'', Num 2), (Str ''fresh'', Num 1), (Str ''counter'', Num 9)]"
  have wr: "fst (exampleWritten exampleHost ws) = Returned True"
    unfolding ws_def by (rule written_three)
  then have wr': "legacy_writes (exampleEnv Production) ws (LegacySandbox ''appL'' (Ref 70)) exampleHost
      = (Returned True, fst (snd (exampleWritten exampleHost ws)), snd (snd (exampleWritten exampleHost ws)))"
    by (cases "exampleWritten exampleHost ws") (simp add: exampleWritten_def)
  have plain: "\<forall>K \<in> fst ` set ws. \<not> isAccessorProperty exampleHost K"
    by (simp add: ws_def isAccessorProperty_def example_defs object_defs)
  from legacy_reactivation [OF wr' plain] obtain Si gi Sa ga where
    off: "legacy_inactive (exampleEnv Production) (fst (snd (exampleWritten exampleHost ws)))
            (snd (snd (exampleWritten exampleHost ws))) = (Returned (), Si, gi)"
    and on: "legacy_active (exampleEnv Production) Si gi = (Returned (), Sa, ga)"
    and re: "\<forall>k v. map_of (rev ws) (Str k) = Some v \<longrightarrow>
               js_get (exampleEnv Production) OnHost ga ga (Str k) = Returned v"
    by blast
  have d: "exampleDeactivated exampleHost ws = (Returned (), Si, gi)"
    using off by (simp add: exampleDeactivated_def)
  have r: "exampleReactivated exampleHost ws = (Returned (), Sa, ga)"
    using on d by (simp add: exampleReactivated_def)
  have vals: "js_get (exampleEnv Production) OnHost ga ga (Str ''title'') = Returned (Num 2)"
    "js_get (exampleEnv Production) OnHost ga ga (Str ''fresh'') = Returned (Num 1)"
    "js_get (exampleEnv Production) OnHost ga ga (Str ''counter'') = Returned (Num 9)"
    using re by (simp_all add: ws_def)
  have between: "js_get (exampleEnv Production) OnHost
        (snd (snd (exampleDeactivated exampleHost ws)))
        (snd (snd (exampleDeactivated exampleHost ws))) (Str ''title'') = Returned (Text ''home'')
     \<and> \<not> hasOwnProperty (snd (snd (exampleDeactivated exampleHost ws))) (Str ''fresh'')"
    unfolding ws_def by (simp add: legacy_defs example_defs object_defs Let_def)
  have plain': "\<not> isAccessorProperty exampleHost (Str ''title'')
      \<and> \<not> isAccessorProperty exampleHost (Str ''fresh'')
      \<and> \<not> isAccessorProperty exampleHost (Str ''counter'')"
    using plain by (simp add: ws_def)
  show ?thesis
    using wr plain' d r vals between unfolding ws_def by simp
qed

text \<open>
  C8, as the claim states it, fails for a symbol key: \<^verbatim>\<open>inactive()\<close> deletes the added
  property, and \<^verbatim>\<open>active()\<close> does not write it back, since \<^verbatim>\<open>setWindowProp\<close> assigns
  string keys only. It fails as well where the write reached a setter and the host's
  property is not configurable: the write \<^verbatim>\<open>locked = 8\<close> returns, the value is in the map
  of current values, \<^verbatim>\<open>active()\<close> skips the property, and the host reads 7.
\<close>

theorem entry_not_reapplied:
  "fst (exampleWritten exampleHost [(Sym ''mark'', Num 4)]) = Returned True
   \<and> currentUpdatedPropsValueMap (fst (snd (exampleWritten exampleHost [(Sym ''mark'', Num 4)])))
       = [(Sym ''mark'', Num 4)]
   \<and> fst (exampleDeactivated exampleHost [(Sym ''mark'', Num 4)]) = Returned ()
   \<and> fst (exampleReactivated exampleHost [(Sym ''mark'', Num 4)]) = Returned ()
   \<and> js_get (exampleEnv Production) OnHost
        (snd (snd (exampleReactivated exampleHost [(Sym ''mark'', Num 4)])))
        (snd (snd (exampleReactivated exampleHost [(Sym ''mark'', Num 4)]))) (Sym ''mark'')
       = Returned Undefined
   \<and> getOwnPropertyDescriptor accessorHost (Str ''locked'')
       = Some (Accessor (Ref 32) (Ref 33) True False)
   \<and> fst (exampleWritten accessorHost [(Str ''locked'', Num 8)]) = Returned True
   \<and> currentUpdatedPropsValueMap (fst (snd (exampleWritten accessorHost [(Str ''locked'', Num 8)])))
       = [(Str ''locked'', Num 8)]
   \<and> fst (exampleDeactivated accessorHost [(Str ''locked'', Num 8)]) = Returned ()
   \<and> fst (exampleReactivated accessorHost [(Str ''locked'', Num 8)]) = Returned ()
   \<and> js_get (exampleEnv Production) OnHost
        (snd (snd (exampleReactivated accessorHost [(Str ''locked'', Num 8)])))
        (snd (snd (exampleReactivated accessorHost [(Str ''locked'', Num 8)]))) (Str ''locked'')
       = Returned (Num 7)"
proof -
  have a: "fst (exampleWritten exampleHost [(Sym ''mark'', Num 4)]) = Returned True
   \<and> currentUpdatedPropsValueMap (fst (snd (exampleWritten exampleHost [(Sym ''mark'', Num 4)])))
       = [(Sym ''mark'', Num 4)]
   \<and> fst (exampleDeactivated exampleHost [(Sym ''mark'', Num 4)]) = Returned ()
   \<and> fst (exampleReactivated exampleHost [(Sym ''mark'', Num 4)]) = Returned ()
   \<and> js_get (exampleEnv Production) OnHost
        (snd (snd (exampleReactivated exampleHost [(Sym ''mark'', Num 4)])))
        (snd (snd (exampleReactivated exampleHost [(Sym ''mark'', Num 4)]))) (Sym ''mark'')
       = Returned Undefined"
    by (simp add: legacy_defs example_defs object_defs Let_def)
  have b: "getOwnPropertyDescriptor accessorHost (Str ''locked'')
       = Some (Accessor (Ref 32) (Ref 33) True False)
   \<and> fst (exampleWritten accessorHost [(Str ''locked'', Num 8)]) = Returned True
   \<and> currentUpdatedPropsValueMap (fst (snd (exampleWritten accessorHost [(Str ''locked'', Num 8)])))
       = [(Str ''locked'', Num 8)]
   \<and> fst (exampleDeactivated accessorHost [(Str ''locked'', Num 8)]) = Returned ()
   \<and> fst (exampleReactivated accessorHost [(Str ''locked'', Num 8)]) = Returned ()
   \<and> js_get (exampleEnv Production) OnHost
        (snd (snd (exampleReactivated accessorHost [(Str ''locked'', Num 8)])))
        (snd (snd (exampleReactivated accessorHost [(Str ''locked'', Num 8)]))) (Str ''locked'')
       = Returned (Num 7)"
    by (simp add: legacy_defs accessorHost_def example_defs object_defs Let_def)
  from a b show ?thesis by simp
qed

end
